theory Spec2Isabelle
  imports Complex_Main "HOL-Library.Char_ord"
begin

section \<open>JavaScript numbers and values\<close>

text \<open>
  The panels and the controller of \<^verbatim>\<open>UIComponents.panels.js\<close> compute with
  JavaScript numbers and guard their inputs with \<^verbatim>\<open>Number.isFinite\<close>, \<^verbatim>\<open>parseFloat\<close>,
  \<^verbatim>\<open>Math.max\<close> and \<^verbatim>\<open>Math.min\<close>. A number is modelled as a finite real or one of the three
  special values. Finite arithmetic is exact here: rounding to binary64, overflow to an
  infinity and the sign of zero are not modelled (a division of a non-zero number by zero
  takes the sign of the dividend).
\<close>

datatype jsnum = Fin real | PInf | NInf | NaN

fun sign_of :: "jsnum \<Rightarrow> int" where
  "sign_of (Fin r) = (if r < 0 then -1 else if r = 0 then 0 else 1)"
| "sign_of PInf = 1"
| "sign_of NInf = -1"
| "sign_of NaN = 0"

fun signed_inf :: "int \<Rightarrow> jsnum" where
  "signed_inf s = (if s = 0 then NaN else if s < 0 then NInf else PInf)"

instantiation jsnum :: "{plus, minus, uminus, times, inverse, abs, ord}"
begin

fun uminus_jsnum :: "jsnum \<Rightarrow> jsnum" where
  "uminus_jsnum (Fin r) = Fin (- r)"
| "uminus_jsnum PInf = NInf"
| "uminus_jsnum NInf = PInf"
| "uminus_jsnum NaN = NaN"

fun plus_jsnum :: "jsnum \<Rightarrow> jsnum \<Rightarrow> jsnum" where
  "plus_jsnum (Fin a) (Fin b) = Fin (a + b)"
| "plus_jsnum NaN _ = NaN"
| "plus_jsnum _ NaN = NaN"
| "plus_jsnum PInf NInf = NaN"
| "plus_jsnum NInf PInf = NaN"
| "plus_jsnum PInf _ = PInf"
| "plus_jsnum _ PInf = PInf"
| "plus_jsnum NInf _ = NInf"
| "plus_jsnum _ NInf = NInf"

definition minus_jsnum :: "jsnum \<Rightarrow> jsnum \<Rightarrow> jsnum" where
  "minus_jsnum a b = a + (- b)"

fun times_jsnum :: "jsnum \<Rightarrow> jsnum \<Rightarrow> jsnum" where
  "times_jsnum (Fin a) (Fin b) = Fin (a * b)"
| "times_jsnum NaN _ = NaN"
| "times_jsnum _ NaN = NaN"
| "times_jsnum a b = signed_inf (sign_of a * sign_of b)"

fun divide_jsnum :: "jsnum \<Rightarrow> jsnum \<Rightarrow> jsnum" where
  "divide_jsnum (Fin a) (Fin b) = (if b = 0 then signed_inf (sign_of (Fin a)) else Fin (a / b))"
| "divide_jsnum NaN _ = NaN"
| "divide_jsnum _ NaN = NaN"
| "divide_jsnum (Fin a) _ = Fin 0"
| "divide_jsnum a (Fin b) = signed_inf (sign_of a * (if b < 0 then -1 else 1))"
| "divide_jsnum _ _ = NaN"

definition inverse_jsnum :: "jsnum \<Rightarrow> jsnum" where
  "inverse_jsnum a = divide (Fin 1) a"

fun abs_jsnum :: "jsnum \<Rightarrow> jsnum" where
  "abs_jsnum (Fin r) = Fin \<bar>r\<bar>"
| "abs_jsnum PInf = PInf"
| "abs_jsnum NInf = PInf"
| "abs_jsnum NaN = NaN"

fun less_jsnum :: "jsnum \<Rightarrow> jsnum \<Rightarrow> bool" where
  "less_jsnum (Fin a) (Fin b) = (a < b)"
| "less_jsnum NaN _ = False"
| "less_jsnum _ NaN = False"
| "less_jsnum NInf b = (b \<noteq> NInf)"
| "less_jsnum a PInf = (a \<noteq> PInf)"
| "less_jsnum _ _ = False"

fun less_eq_jsnum :: "jsnum \<Rightarrow> jsnum \<Rightarrow> bool" where
  "less_eq_jsnum (Fin a) (Fin b) = (a \<le> b)"
| "less_eq_jsnum NaN _ = False"
| "less_eq_jsnum _ NaN = False"
| "less_eq_jsnum NInf _ = True"
| "less_eq_jsnum _ PInf = True"
| "less_eq_jsnum _ _ = False"

instance ..

end

text \<open>\<^verbatim>\<open>Math.max\<close> and \<^verbatim>\<open>Math.min\<close> of two numbers return NaN as soon as one argument is NaN.\<close>

fun Math_max :: "jsnum \<Rightarrow> jsnum \<Rightarrow> jsnum" where
  "Math_max NaN _ = NaN"
| "Math_max _ NaN = NaN"
| "Math_max a b = (if a < b then b else a)"

fun Math_min :: "jsnum \<Rightarrow> jsnum \<Rightarrow> jsnum" where
  "Math_min NaN _ = NaN"
| "Math_min _ NaN = NaN"
| "Math_min a b = (if b < a then b else a)"

fun Math_round :: "jsnum \<Rightarrow> jsnum" where
  "Math_round (Fin r) = Fin (of_int \<lfloor>r + 1 / 2\<rfloor>)"
| "Math_round n = n"

fun Math_floor :: "jsnum \<Rightarrow> jsnum" where
  "Math_floor (Fin r) = Fin (of_int \<lfloor>r\<rfloor>)"
| "Math_floor n = n"


text \<open>
  A JavaScript value. Objects keep their own enumerable properties in insertion order;
  functions, symbols and sparse arrays are not modelled.
\<close>

datatype jsval =
    JUndefined
  | JNull
  | JBool bool
  | JNum jsnum
  | JStr string
  | JArr "jsval list"
  | JObj "(string \<times> jsval) list"

fun Array_isArray :: "jsval \<Rightarrow> bool" where
  "Array_isArray (JArr _) = True"
| "Array_isArray _ = False"

text \<open>\<^verbatim>\<open>Number.isFinite(v)\<close>: true only for a value of type number that is finite.\<close>

fun Number_isFinite :: "jsval \<Rightarrow> bool" where
  "Number_isFinite (JNum (Fin _)) = True"
| "Number_isFinite _ = False"

text \<open>The truthiness of a value, as used by \<^verbatim>\<open>||\<close>, \<^verbatim>\<open>!\<close> and \<^verbatim>\<open>Boolean(v)\<close>.\<close>

fun truthy :: "jsval \<Rightarrow> bool" where
  "truthy JUndefined = False"
| "truthy JNull = False"
| "truthy (JBool b) = b"
| "truthy (JNum (Fin r)) = (r \<noteq> 0)"
| "truthy (JNum NaN) = False"
| "truthy (JNum _) = True"
| "truthy (JStr s) = (s \<noteq> [])"
| "truthy (JArr _) = True"
| "truthy (JObj _) = True"

text \<open>\<^verbatim>\<open>arr[i]\<close>: an index past the end of an array reads as \<^verbatim>\<open>undefined\<close>.\<close>

definition at_index :: "jsval list \<Rightarrow> nat \<Rightarrow> jsval" where
  "at_index xs i = (if i < length xs then xs ! i else JUndefined)"

text \<open>
  \<^verbatim>\<open>parseFloat(v)\<close> converts its argument to a string and reads the longest numeric
  prefix. On a number the conversion and the reading give the number back;
  \<^verbatim>\<open>undefined\<close>, \<^verbatim>\<open>null\<close> and booleans give NaN. The conversion of strings, arrays
  and objects and the reading of the resulting text are built-ins of the language and not
  part of this repository: they are the parameter \<open>pf\<close>, and every statement below holds
  for each such reading.
\<close>

type_synonym reader = "jsval \<Rightarrow> jsnum"

fun parseFloat :: "reader \<Rightarrow> jsval \<Rightarrow> jsnum" where
  "parseFloat pf (JNum n) = n"
| "parseFloat pf JUndefined = NaN"
| "parseFloat pf JNull = NaN"
| "parseFloat pf (JBool b) = NaN"
| "parseFloat pf v = pf v"

text \<open>\<^verbatim>\<open>x || 0\<close> on a number: NaN and zero are replaced by zero.\<close>

definition or_zero :: "jsnum \<Rightarrow> jsnum" where
  "or_zero n = (if truthy (JNum n) then n else Fin 0)"

section \<open>The effectiveness normalizers of AppController\<close>

text \<open>
  \<^verbatim>\<open>riskEngine\<close> is imported from \<^verbatim>\<open>RiskEngine.js\<close>, which is not among the sources. The
  two properties of it that the normalizers read are parameters:
  \<open>defaultResp\<close> is \<^verbatim>\<open>riskEngine?.defaultResponsivenessEffectiveness\<close> and
  \<open>respLabels\<close> is \<^verbatim>\<open>riskEngine?.responsivenessLabels\<close>.
\<close>

definition normalizeTransparencyEffectiveness :: "reader \<Rightarrow> jsval \<Rightarrow> jsnum list" where
  "normalizeTransparencyEffectiveness pf arr =
     (case arr of
        JArr vs \<Rightarrow>
          map (\<lambda>value.
                 let parsed = parseFloat pf value in
                 if \<not> Number_isFinite (JNum parsed) then Fin 0
                 else let scaled = (if \<bar>parsed\<bar> \<le> Fin 1 then parsed * Fin 100 else parsed)
                      in Math_max (Fin 0) (Math_min (Fin 100) scaled)) vs
      | _ \<Rightarrow> [Fin 90, Fin 45, Fin 25, Fin 15, Fin 12, Fin 5])"

definition defaultValues :: "jsval \<Rightarrow> jsval list" where
  "defaultValues defaultResp =
     (case defaultResp of JArr ds \<Rightarrow> ds | _ \<Rightarrow> map (JNum \<circ> Fin) [70, 85, 35, 25, 15, 5])"

definition expectedLength :: "jsval \<Rightarrow> jsval \<Rightarrow> nat" where
  "expectedLength defaultResp respLabels =
     (case respLabels of JArr ls \<Rightarrow> length ls | _ \<Rightarrow> length (defaultValues defaultResp))"

text \<open>\<open>fallback\<close> is the loop's local of that name: the default at index \<open>i\<close> when finite, else 0.\<close>

definition fallback :: "jsval \<Rightarrow> nat \<Rightarrow> real" where
  "fallback defaultResp i =
     (case at_index (defaultValues defaultResp) i of JNum (Fin d) \<Rightarrow> d | _ \<Rightarrow> 0)"

definition normalizeResponsivenessEffectiveness ::
  "reader \<Rightarrow> jsval \<Rightarrow> jsval \<Rightarrow> jsval \<Rightarrow> jsnum list" where
  "normalizeResponsivenessEffectiveness pf defaultResp respLabels arr =
     map (\<lambda>i.
            if \<not> Array_isArray arr
            then Math_max (Fin 0) (Math_min (Fin 100) (Fin (fallback defaultResp i)))
            else let parsed = parseFloat pf (case arr of JArr vs \<Rightarrow> at_index vs i | _ \<Rightarrow> JUndefined) in
                 if \<not> Number_isFinite (JNum parsed)
                 then Math_max (Fin 0) (Math_min (Fin 100) (Fin (fallback defaultResp i)))
                 else let scaled = (if \<bar>parsed\<bar> \<le> Fin 1 then parsed * Fin 100 else parsed)
                      in Math_max (Fin 0) (Math_min (Fin 100) scaled))
         [0 ..< expectedLength defaultResp respLabels]"

definition clamp01 :: "reader \<Rightarrow> jsval \<Rightarrow> jsnum" where
  "clamp01 pf v =
     (let n = parseFloat pf v in
      if \<not> Number_isFinite (JNum n) then Fin 0 else Math_max (Fin 0) (Math_min (Fin 1) n))"

text \<open>A number is a finite real between two bounds.\<close>

fun in_range :: "real \<Rightarrow> real \<Rightarrow> jsnum \<Rightarrow> bool" where
  "in_range lo hi (Fin r) = (lo \<le> r \<and> r \<le> hi)"
| "in_range lo hi _ = False"


text \<open>A reading under which no string, array or object reads as a number.\<close>

definition no_text :: reader where
  "no_text v = NaN"

section \<open>The cost analysis panel\<close>

text \<open>
  \<^verbatim>\<open>obj.key\<close> on a value that is neither \<^verbatim>\<open>null\<close> nor \<^verbatim>\<open>undefined\<close>: the
  property of an object, \<^verbatim>\<open>undefined\<close> when it has none of that name. The keys read in
  this file are not properties of numbers, strings or arrays.
\<close>

fun get_prop :: "jsval \<Rightarrow> string \<Rightarrow> jsval" where
  "get_prop (JObj kvs) k = (case map_of kvs k of Some v \<Rightarrow> v | None \<Rightarrow> JUndefined)"
| "get_prop _ k = JUndefined"







text \<open>
  \<^verbatim>\<open>sanitizeArray(values, length, min, max)\<close> of \<^verbatim>\<open>createCostAnalysisPanel\<close>.
  \<^verbatim>\<open>Array.from({ length }, f)\<close> builds the entries for the indices below
  \<open>length\<close>; \<^verbatim>\<open>max\<close> defaults to \<^verbatim>\<open>Number.POSITIVE_INFINITY\<close>, which a caller
  passes here as \<open>PInf\<close>.
\<close>

definition sanitizeArray :: "reader \<Rightarrow> jsval \<Rightarrow> nat \<Rightarrow> jsnum \<Rightarrow> jsnum \<Rightarrow> jsnum list" where
  "sanitizeArray pf values len mn mx =
     (let baseArray = (case values of JArr vs \<Rightarrow> vs | _ \<Rightarrow> [])
      in map (\<lambda>index.
                let rawValue = at_index baseArray index;
                    numeric = Math_max mn (or_zero (parseFloat pf rawValue))
                in if Number_isFinite (JNum mx) then Math_min mx numeric else numeric)
             [0 ..< len])"

text \<open>
  \<open>hrddStrategyLabels\<close> is \<^verbatim>\<open>riskEngine?.hrddStrategyLabels\<close>, one label per tool.
\<close>

definition strategyCount :: "jsval \<Rightarrow> nat" where
  "strategyCount hrddStrategyLabels =
     (case hrddStrategyLabels of JArr ls \<Rightarrow> length ls | _ \<Rightarrow> 0)"

definition sanitizedToolAnnualProgrammeCosts :: "reader \<Rightarrow> jsval \<Rightarrow> jsval \<Rightarrow> jsnum list" where
  "sanitizedToolAnnualProgrammeCosts pf hrddStrategyLabels toolAnnualProgrammeCosts =
     sanitizeArray pf toolAnnualProgrammeCosts (strategyCount hrddStrategyLabels) (Fin 0) (Fin 50000)"

definition sanitizedToolPerSupplierCosts :: "reader \<Rightarrow> jsval \<Rightarrow> jsval \<Rightarrow> jsnum list" where
  "sanitizedToolPerSupplierCosts pf hrddStrategyLabels toolPerSupplierCosts =
     sanitizeArray pf toolPerSupplierCosts (strategyCount hrddStrategyLabels) (Fin 0) (Fin 2000)"

definition sanitizedToolInternalHours :: "reader \<Rightarrow> jsval \<Rightarrow> jsval \<Rightarrow> jsnum list" where
  "sanitizedToolInternalHours pf hrddStrategyLabels toolInternalHours =
     sanitizeArray pf toolInternalHours (strategyCount hrddStrategyLabels) (Fin 0) (Fin 500)"

definition sanitizedToolRemedyInternalHours :: "reader \<Rightarrow> jsval \<Rightarrow> jsval \<Rightarrow> jsnum list" where
  "sanitizedToolRemedyInternalHours pf hrddStrategyLabels toolRemedyInternalHours =
     sanitizeArray pf toolRemedyInternalHours (strategyCount hrddStrategyLabels) (Fin 0) (Fin 200)"

text \<open>
  The input listeners of \<^verbatim>\<open>setupCostAnalysisEventListeners\<close> clamp what the user types
  the same way, \<^verbatim>\<open>Math.min(cap, Math.max(0, numeric))\<close>, with the caps 50000, 2000, 500
  and 200; \<open>numeric\<close> is a finite number there (\<^verbatim>\<open>parseEditableNumber\<close> returned it).
\<close>

definition newValue :: "real \<Rightarrow> jsnum \<Rightarrow> jsnum" where
  "newValue cap numeric = Math_min (Fin cap) (Math_max (Fin 0) numeric)"

section \<open>The application controller\<close>

subsection \<open>Strings, sets and objects\<close>

text \<open>
  Country codes are ASCII strings. \<^verbatim>\<open>trim()\<close> removes white space at both ends and
  \<^verbatim>\<open>toUpperCase()\<close> maps the letters a to z; characters outside ASCII are not modelled.
\<close>

definition isWhiteSpace :: "char \<Rightarrow> bool" where
  "isWhiteSpace c = (c \<in> set [CHR 0x09, CHR 0x0A, CHR 0x0B, CHR 0x0C, CHR 0x0D, CHR '' ''])"

definition trim :: "string \<Rightarrow> string" where
  "trim s = rev (dropWhile isWhiteSpace (rev (dropWhile isWhiteSpace s)))"

definition upperChar :: "char \<Rightarrow> char" where
  "upperChar c =
     (case map_of (zip ''abcdefghijklmnopqrstuvwxyz'' ''ABCDEFGHIJKLMNOPQRSTUVWXYZ'') c of
        Some u \<Rightarrow> u | None \<Rightarrow> c)"

definition toUpperCase :: "string \<Rightarrow> string" where
  "toUpperCase s = map upperChar s"

text \<open>\<^verbatim>\<open>typeof code === 'string' ? code.trim().toUpperCase() : other\<close>.\<close>

fun normalizeCode :: "jsval \<Rightarrow> jsval \<Rightarrow> jsval" where
  "normalizeCode other (JStr s) = JStr (toUpperCase (trim s))"
| "normalizeCode other v = other"

text \<open>
  A \<^verbatim>\<open>Set\<close> keeps the first occurrence of each value in insertion order. Values are
  compared by value here; JavaScript compares arrays and objects by identity, and the
  selections of this application hold strings.
\<close>

fun Set_of :: "'a list \<Rightarrow> 'a list" where
  "Set_of [] = []"
| "Set_of (x # xs) = x # Set_of (removeAll x xs)"

text \<open>
  Own properties of an object: \<^verbatim>\<open>delete obj[k]\<close>, \<^verbatim>\<open>obj[k] = v\<close> (a new key goes
  last, an existing key keeps its place) and \<^verbatim>\<open>Object.entries\<close>.
\<close>

definition delete_key :: "string \<Rightarrow> (string \<times> jsval) list \<Rightarrow> (string \<times> jsval) list" where
  "delete_key k kvs = filter (\<lambda>(k', v). k' \<noteq> k) kvs"

fun set_key :: "string \<Rightarrow> jsval \<Rightarrow> (string \<times> jsval) list \<Rightarrow> (string \<times> jsval) list" where
  "set_key k v [] = [(k, v)]"
| "set_key k v ((k', v') # kvs) = (if k' = k then (k, v) # kvs else (k', v') # set_key k v kvs)"

definition keys :: "(string \<times> jsval) list \<Rightarrow> string list" where
  "keys kvs = map fst kvs"

text \<open>
  \<^verbatim>\<open>{ ...v }\<close> and \<^verbatim>\<open>Object.entries(v)\<close>: the own properties of an object, the
  entries of an array and the characters of a string under their indices in decimal, and
  nothing for \<^verbatim>\<open>null\<close>, \<^verbatim>\<open>undefined\<close>, numbers and booleans.
\<close>

fun decimal :: "nat \<Rightarrow> string" where
  "decimal n =
     (if n < 10 then [''0123456789'' ! n]
      else decimal (n div 10) @ [''0123456789'' ! (n mod 10)])"

fun entries :: "jsval \<Rightarrow> (string \<times> jsval) list" where
  "entries (JObj kvs) = kvs"
| "entries (JArr xs) = zip (map decimal [0 ..< length xs]) xs"
| "entries (JStr s) = zip (map decimal [0 ..< length s]) (map (\<lambda>c. JStr [c]) s)"
| "entries _ = []"

text \<open>\<^verbatim>\<open>typeof v === 'object'\<close>: objects, arrays and \<^verbatim>\<open>null\<close>.\<close>

fun typeof_object :: "jsval \<Rightarrow> bool" where
  "typeof_object (JObj _) = True"
| "typeof_object (JArr _) = True"
| "typeof_object JNull = True"
| "typeof_object _ = False"

subsection \<open>The environment of the controller\<close>

text \<open>
  \<^verbatim>\<open>ENABLE_PANEL_6\<close> is the constant of the file.
\<close>

definition ENABLE_PANEL_6 :: bool where
  "ENABLE_PANEL_6 = True"

text \<open>
  What the controller takes from outside this file. \<^verbatim>\<open>riskEngine\<close> comes from
  \<^verbatim>\<open>RiskEngine.js\<close>, which is not among the sources: its defaults and its functions are
  fields of the environment, and its summary functions are taken to return a value without
  changing their arguments. \<open>readFloat\<close> is the reading of text by \<^verbatim>\<open>parseFloat\<close>,
  \<open>toText\<close> the conversion of a value that is not a string to a property key, \<open>now\<close>
  what \<^verbatim>\<open>new Date().toISOString()\<close> returns, and \<open>storageWritable\<close> tells whether
  \<^verbatim>\<open>localStorage.setItem\<close> succeeds.

  \<^verbatim>\<open>riskEngine.optimizeBudgetAllocation\<close> receives the arrays and objects of the state
  themselves, not copies, so a change it made to one of them would be a change of the
  state: the field \<open>engine_optimizeBudgetAllocation\<close> returns its result together
  with its arguments as they are after the call.
\<close>

record optimize_args =
  arg_supplierCount :: jsnum
  arg_hourlyRate :: jsnum
  arg_toolAnnualProgrammeCosts :: "jsnum list"
  arg_toolPerSupplierCosts :: "jsnum list"
  arg_toolInternalHours :: "jsnum list"
  arg_toolRemedyInternalHours :: "jsnum list"
  arg_hrddStrategy :: "jsval list"
  arg_transparencyEffectiveness :: "jsnum list"
  arg_responsivenessStrategy :: "jsval list"
  arg_responsivenessEffectiveness :: "jsnum list"
  arg_selectedCountries :: "jsval list"
  arg_countryVolumes :: "(string \<times> jsval) list"
  arg_countryRisks :: "(string \<times> jsval) list"
  arg_focus :: jsnum
  arg_saqConstraintEnabled :: bool
  arg_socialAuditConstraintEnabled :: bool
  arg_socialAuditCostReduction :: jsnum

record env =
  readFloat :: reader
  toText :: "jsval \<Rightarrow> string"
  now :: string
  storageWritable :: bool
  defaultWeights :: jsval
  defaultFocus :: jsval
  defaultHRDDStrategy :: jsval
  defaultTransparencyEffectiveness :: jsval
  defaultResponsivenessStrategy :: jsval
  defaultResponsivenessEffectiveness :: jsval
  responsivenessLabels :: jsval
  calculateWeightedRisk :: "jsval \<Rightarrow> jsval list \<Rightarrow> jsval"
  generateBaselineSummary ::
    "jsval list \<Rightarrow> jsval list \<Rightarrow> (string \<times> jsval) list \<Rightarrow> (string \<times> jsval) list \<Rightarrow> jsval"
  generateRiskSummary ::
    "jsval \<Rightarrow> jsval \<Rightarrow> jsval list \<Rightarrow> jsval list \<Rightarrow> jsnum list \<Rightarrow> jsval list \<Rightarrow> jsnum list \<Rightarrow>
     jsnum \<Rightarrow> jsnum \<Rightarrow> (string \<times> jsval) list \<Rightarrow> (string \<times> jsval) list \<Rightarrow> jsval"
  engine_optimizeBudgetAllocation :: "optimize_args \<Rightarrow> jsval \<times> optimize_args"

text \<open>The key of a property access \<^verbatim>\<open>obj[v]\<close>.\<close>

fun toKey :: "env \<Rightarrow> jsval \<Rightarrow> string" where
  "toKey E (JStr s) = s"
| "toKey E v = toText E v"

subsection \<open>The state\<close>

text \<open>
  \<^verbatim>\<open>this.state\<close> of \<^verbatim>\<open>AppController\<close>, one field per property. A field has the
  type that every assignment of the file gives it: the selections and strategies are
  arrays, the two effectiveness arrays are results of the normalizers, the maps from
  country code to a value are objects, and the fields that \<^verbatim>\<open>setState\<close> copies
  unchecked are arbitrary values.
\<close>

record app_state =
  countries :: "jsval list"
  weights :: "jsval list"
  supplierCount :: jsnum
  hourlyRate :: jsnum
  toolAnnualProgrammeCosts :: "jsnum list"
  toolPerSupplierCosts :: "jsnum list"
  toolInternalHours :: "jsnum list"
  toolRemedyInternalHours :: "jsnum list"
  saqConstraintEnabled :: bool
  socialAuditConstraintEnabled :: bool
  socialAuditCostReduction :: jsnum
  shouldAutoRunOptimization :: bool
  lastOptimizationResult :: jsval
  selectedCountries :: "jsval list"
  countryVolumes :: "(string \<times> jsval) list"
  countryRisks :: "(string \<times> jsval) list"
  countryManagedRisks :: jsval
  baselineRisk :: jsval
  managedRisk :: jsval
  riskConcentration :: jsnum
  focus :: jsnum
  hrddStrategy :: "jsval list"
  transparencyEffectiveness :: "jsnum list"
  responsivenessStrategy :: "jsval list"
  responsivenessEffectiveness :: "jsnum list"
  focusEffectivenessMetrics :: jsval
  currentPanel :: jsval
  loading :: jsval
  error :: jsval
  apiHealthy :: jsval
  lastUpdate :: jsval
  isDirty :: bool
  isGeneratingReport :: jsval

text \<open>\<^verbatim>\<open>a || b\<close> on values.\<close>

definition or_else :: "jsval \<Rightarrow> jsval \<Rightarrow> jsval" where
  "or_else a b = (if truthy a then a else b)"

text \<open>
  The constructor. The fields of panel 6 are those of the branch \<^verbatim>\<open>ENABLE_PANEL_6\<close>,
  which is the one the constant selects. A default strategy of the engine is an array or
  absent.
\<close>

definition initial_state :: "env \<Rightarrow> app_state" where
  "initial_state E =
     \<lparr> countries = [],
       weights = (case defaultWeights E of JArr ws \<Rightarrow> ws
                  | _ \<Rightarrow> map (JNum \<circ> Fin) [20, 20, 20, 20, 20]),
       supplierCount = Fin 500,
       hourlyRate = Fin 40,
       toolAnnualProgrammeCosts = map Fin [12000, 0, 0, 40000, 0, 0],
       toolPerSupplierCosts = map Fin [120, 0, 1000, 0, 0, 0],
       toolInternalHours = map Fin [6, 20, 20, 6, 2, 1],
       toolRemedyInternalHours = map Fin [0, 10, 10, 6, 2, 2],
       saqConstraintEnabled = True,
       socialAuditConstraintEnabled = True,
       socialAuditCostReduction = Fin 50,
       shouldAutoRunOptimization = False,
       lastOptimizationResult = JNull,
       selectedCountries = [],
       countryVolumes = [],
       countryRisks = [],
       countryManagedRisks = JObj [],
       baselineRisk = JNum (Fin 0),
       managedRisk = JNum (Fin 0),
       riskConcentration = Fin 1,
       focus = (case defaultFocus E of JNum n \<Rightarrow> n | _ \<Rightarrow> Fin (6 / 10)),
       hrddStrategy = (case defaultHRDDStrategy E of JArr xs \<Rightarrow> xs
                       | _ \<Rightarrow> map (JNum \<circ> Fin) [0, 10, 5, 65, 100, 0]),
       transparencyEffectiveness =
         normalizeTransparencyEffectiveness (readFloat E)
           (or_else (defaultTransparencyEffectiveness E)
              (JArr (map (JNum \<circ> Fin) [80, 40, 30, 20, 10, 5]))),
       responsivenessStrategy = (case defaultResponsivenessStrategy E of JArr xs \<Rightarrow> xs
                                 | _ \<Rightarrow> map (JNum \<circ> Fin) [80, 50, 30, 15, 5, 5]),
       responsivenessEffectiveness =
         normalizeResponsivenessEffectiveness (readFloat E)
           (defaultResponsivenessEffectiveness E) (responsivenessLabels E)
           (or_else (defaultResponsivenessEffectiveness E)
              (JArr (map (JNum \<circ> Fin) [80, 35, 10, 10, 2, 2]))),
       focusEffectivenessMetrics = JNull,
       currentPanel = JNum (Fin 1),
       loading = JBool True,
       error = JNull,
       apiHealthy = JBool False,
       lastUpdate = JNull,
       isDirty = False,
       isGeneratingReport = JBool False \<rparr>"

subsection \<open>Recalculation\<close>

definition validateCountryData :: "jsval \<Rightarrow> bool" where
  "validateCountryData country =
     (truthy country \<and> truthy (get_prop country ''isoCode'') \<and> typeof_object country)"

definition calculateAllRisks :: "env \<Rightarrow> app_state \<Rightarrow> app_state" where
  "calculateAllRisks E s =
     s\<lparr> countryRisks :=
          fold (\<lambda>country newCountryRisks.
                  if validateCountryData country
                  then set_key (toKey E (get_prop country ''isoCode''))
                         (calculateWeightedRisk E country (weights s)) newCountryRisks
                  else newCountryRisks)
               (countries s) [] \<rparr>"

definition calculateBaselineRisk :: "env \<Rightarrow> app_state \<Rightarrow> app_state" where
  "calculateBaselineRisk E s =
     (let summary = generateBaselineSummary E (selectedCountries s) (countries s)
                      (countryRisks s) (countryVolumes s)
      in s\<lparr> baselineRisk :=
              (if Number_isFinite (get_prop summary ''baselineRisk'')
               then get_prop summary ''baselineRisk'' else JNum (Fin 0)) \<rparr>)"

definition calculateManagedRisk :: "env \<Rightarrow> app_state \<Rightarrow> app_state" where
  "calculateManagedRisk E s =
     (let summary =
            or_else
              (generateRiskSummary E (baselineRisk s) JNull (selectedCountries s)
                 (hrddStrategy s) (transparencyEffectiveness s) (responsivenessStrategy s)
                 (responsivenessEffectiveness s) (clamp01 (readFloat E) (JNum (focus s)))
                 (riskConcentration s) (countryVolumes s) (countryRisks s))
              (JObj []);
          score = get_prop (get_prop summary ''managed'') ''score'';
          managed = (if Number_isFinite score then score else JNum (Fin 0))
      in s\<lparr> managedRisk := managed,
             focusEffectivenessMetrics := or_else (get_prop summary ''focusEffectiveness'') JNull,
             countryManagedRisks := or_else (get_prop summary ''countryManagedRisks'') (JObj []) \<rparr>)"

text \<open>
  The three calls that the handlers make in a row. The controller is modelled while it is
  not mounted (\<^verbatim>\<open>containerElement\<close> is \<^verbatim>\<open>null\<close>), where \<^verbatim>\<open>render()\<close> and
  \<^verbatim>\<open>updateUI()\<close> return at once; the debounce timers of the handlers run these
  recalculations again later and write the same derived fields.
\<close>

definition recalculate :: "env \<Rightarrow> app_state \<Rightarrow> app_state" where
  "recalculate E s = calculateManagedRisk E (calculateBaselineRisk E (calculateAllRisks E s))"

subsection \<open>Handlers\<close>

text \<open>
  \<^verbatim>\<open>onCountrySelect\<close> first computes \<^verbatim>\<open>updatedSelection\<close> from its argument and
  then, in \<open>applySelection\<close>, removes the volumes and managed risks of the deselected
  countries, stores the selection and recalculates.
\<close>

definition applySelection :: "env \<Rightarrow> jsval list \<Rightarrow> app_state \<Rightarrow> app_state" where
  "applySelection E updatedSelection s =
     (let previousSet = Set_of (selectedCountries s);
          deselected = filter (\<lambda>code. code \<notin> set updatedSelection) previousSet;
          s1 = (if deselected \<noteq> []
                then s\<lparr> countryVolumes :=
                          fold (\<lambda>code. delete_key (toKey E code)) deselected (countryVolumes s),
                        countryManagedRisks :=
                          JObj (fold (\<lambda>code. delete_key (toKey E code)) deselected
                                  (entries (countryManagedRisks s))) \<rparr>
                else s);
          s2 = s1\<lparr> selectedCountries := updatedSelection, isDirty := True \<rparr>
      in (recalculate E s2)\<lparr> lastUpdate := JStr (now E) \<rparr>)"

definition onCountrySelect :: "env \<Rightarrow> jsval \<Rightarrow> app_state \<Rightarrow> app_state" where
  "onCountrySelect E nextSelected s =
     (case nextSelected of
        JArr codes \<Rightarrow> applySelection E (filter truthy (map (normalizeCode (JStr [])) codes)) s
      | JStr code \<Rightarrow>
          (let trimmed = toUpperCase (trim code) in
           if trimmed = [] then s
           else let selectionSet =
                      Set_of (map (\<lambda>code. normalizeCode code code) (selectedCountries s))
                in applySelection E
                     (if JStr trimmed \<in> set selectionSet
                      then removeAll (JStr trimmed) selectionSet
                      else selectionSet @ [JStr trimmed]) s)
      | _ \<Rightarrow> applySelection E [] s)"

definition onVolumeChange :: "env \<Rightarrow> jsval \<Rightarrow> jsval \<Rightarrow> app_state \<Rightarrow> app_state" where
  "onVolumeChange E isoCode volume s =
     (let normalized = normalizeCode isoCode isoCode;
          v = Math_max (Fin 0) (or_zero (parseFloat (readFloat E) volume))
      in if normalized \<notin> set (selectedCountries s) then s
         else s\<lparr> countryVolumes := set_key (toKey E normalized) (JNum v) (countryVolumes s),
                 isDirty := True \<rparr>)"



definition onTransparencyChange :: "env \<Rightarrow> jsval \<Rightarrow> app_state \<Rightarrow> app_state" where
  "onTransparencyChange E next s =
     (if \<not> Array_isArray next then s
      else s\<lparr> transparencyEffectiveness :=
                normalizeTransparencyEffectiveness (readFloat E) next,
              isDirty := True \<rparr>)"

definition onResponsivenessEffectivenessChange :: "env \<Rightarrow> jsval \<Rightarrow> app_state \<Rightarrow> app_state" where
  "onResponsivenessEffectivenessChange E next s =
     (if \<not> Array_isArray next then s
      else s\<lparr> responsivenessEffectiveness :=
                normalizeResponsivenessEffectiveness (readFloat E)
                  (defaultResponsivenessEffectiveness E) (responsivenessLabels E) next,
              isDirty := True \<rparr>)"

text \<open>
  \<^verbatim>\<open>setCurrentPanel(panel)\<close> on a number, as the navigation calls it.
\<close>

definition setCurrentPanel :: "jsnum \<Rightarrow> app_state \<Rightarrow> app_state" where
  "setCurrentPanel panel s =
     (let maxPanel = (if ENABLE_PANEL_6 then Fin 6 else Fin 5) in
      if Fin 1 \<le> panel \<and> panel \<le> maxPanel
      then let s1 = s\<lparr> currentPanel := JNum panel \<rparr>
           in if ENABLE_PANEL_6 then s1\<lparr> shouldAutoRunOptimization := (panel = Fin 6) \<rparr> else s1
      else s)"

subsection \<open>Optimization\<close>

text \<open>The seventeen arguments of the engine call, in the order of the call.\<close>

definition optimize_arguments :: "app_state \<Rightarrow> optimize_args" where
  "optimize_arguments s =
     \<lparr> arg_supplierCount = supplierCount s,
       arg_hourlyRate = hourlyRate s,
       arg_toolAnnualProgrammeCosts = toolAnnualProgrammeCosts s,
       arg_toolPerSupplierCosts = toolPerSupplierCosts s,
       arg_toolInternalHours = toolInternalHours s,
       arg_toolRemedyInternalHours = toolRemedyInternalHours s,
       arg_hrddStrategy = hrddStrategy s,
       arg_transparencyEffectiveness = transparencyEffectiveness s,
       arg_responsivenessStrategy = responsivenessStrategy s,
       arg_responsivenessEffectiveness = responsivenessEffectiveness s,
       arg_selectedCountries = selectedCountries s,
       arg_countryVolumes = countryVolumes s,
       arg_countryRisks = countryRisks s,
       arg_focus = focus s,
       arg_saqConstraintEnabled = saqConstraintEnabled s,
       arg_socialAuditConstraintEnabled = socialAuditConstraintEnabled s,
       arg_socialAuditCostReduction = socialAuditCostReduction s \<rparr>"

text \<open>
  The arrays and objects among the arguments are the state's own, so the state holds them
  as the engine left them (\<open>shared\<close>); numbers and booleans are passed by value.
\<close>

definition optimizeBudgetAllocation :: "env \<Rightarrow> app_state \<Rightarrow> jsval \<times> app_state" where
  "optimizeBudgetAllocation E s =
     (if \<not> ENABLE_PANEL_6 then (JNull, s)
      else
        let (result, after) = engine_optimizeBudgetAllocation E (optimize_arguments s);
            shared = s\<lparr> toolAnnualProgrammeCosts := arg_toolAnnualProgrammeCosts after,
                       toolPerSupplierCosts := arg_toolPerSupplierCosts after,
                       toolInternalHours := arg_toolInternalHours after,
                       toolRemedyInternalHours := arg_toolRemedyInternalHours after,
                       hrddStrategy := arg_hrddStrategy after,
                       transparencyEffectiveness := arg_transparencyEffectiveness after,
                       responsivenessStrategy := arg_responsivenessStrategy after,
                       responsivenessEffectiveness := arg_responsivenessEffectiveness after,
                       selectedCountries := arg_selectedCountries after,
                       countryVolumes := arg_countryVolumes after,
                       countryRisks := arg_countryRisks after \<rparr>
        in (result, shared\<lparr> lastOptimizationResult := or_else result JNull,
                             shouldAutoRunOptimization := False \<rparr>))"

subsection \<open>setState\<close>

text \<open>
  The objects \<^verbatim>\<open>normalizedVolumes\<close>, \<^verbatim>\<open>normalizedRisks\<close> and
  \<^verbatim>\<open>normalizedManaged\<close>: every entry is stored again under its trimmed upper-case key.
\<close>

definition normalizeKeys :: "jsval \<Rightarrow> (string \<times> jsval) list" where
  "normalizeKeys obj =
     fold (\<lambda>(key, value) normalized. set_key (toUpperCase (trim key)) value normalized)
          (entries obj) []"

text \<open>
  The guarded assignments of \<^verbatim>\<open>setState\<close> and \<^verbatim>\<open>restoreState\<close>: the local
  function \<^verbatim>\<open>assignArray\<close> and the tests \<^verbatim>\<open>Array.isArray(v)\<close>,
  \<^verbatim>\<open>typeof v === 'number'\<close>, \<^verbatim>\<open>typeof v === 'boolean'\<close>,
  \<^verbatim>\<open>v && typeof v === 'object'\<close> and \<^verbatim>\<open>v !== undefined\<close> in front of an
  assignment. \<open>run\<close> executes statements in their order.
\<close>

definition assignArray ::
  "jsval \<Rightarrow> (jsval list \<Rightarrow> app_state \<Rightarrow> app_state) \<Rightarrow> app_state \<Rightarrow> app_state" where
  "assignArray v assign s = (case v of JArr arr \<Rightarrow> assign arr s | _ \<Rightarrow> s)"

definition whenNumber ::
  "jsval \<Rightarrow> (jsnum \<Rightarrow> app_state \<Rightarrow> app_state) \<Rightarrow> app_state \<Rightarrow> app_state" where
  "whenNumber v assign s = (case v of JNum n \<Rightarrow> assign n s | _ \<Rightarrow> s)"

definition whenBoolean ::
  "jsval \<Rightarrow> (bool \<Rightarrow> app_state \<Rightarrow> app_state) \<Rightarrow> app_state \<Rightarrow> app_state" where
  "whenBoolean v assign s = (case v of JBool b \<Rightarrow> assign b s | _ \<Rightarrow> s)"

definition whenObject ::
  "jsval \<Rightarrow> (jsval \<Rightarrow> app_state \<Rightarrow> app_state) \<Rightarrow> app_state \<Rightarrow> app_state" where
  "whenObject v assign s = (if truthy v \<and> typeof_object v then assign v s else s)"

definition whenDefined ::
  "jsval \<Rightarrow> (jsval \<Rightarrow> app_state \<Rightarrow> app_state) \<Rightarrow> app_state \<Rightarrow> app_state" where
  "whenDefined v assign s = (if v \<noteq> JUndefined then assign v s else s)"

definition run :: "(app_state \<Rightarrow> app_state) list \<Rightarrow> app_state \<Rightarrow> app_state" where
  "run statements s = fold (\<lambda>statement. statement) statements s"

definition setState :: "env \<Rightarrow> jsval \<Rightarrow> app_state \<Rightarrow> app_state" where
  "setState E partial s =
     (let partialState = (case partial of JUndefined \<Rightarrow> JObj [] | v \<Rightarrow> v) in
      if \<not> truthy partialState \<or> \<not> typeof_object partialState then s
      else
        let p = get_prop partialState in
        run [ assignArray (p ''countries'')
                (\<lambda>arr s. s\<lparr> countries := map (\<lambda>country. JObj (entries country)) arr \<rparr>),
              assignArray (p ''selectedCountries'')
                (\<lambda>arr s. s\<lparr> selectedCountries := Set_of arr \<rparr>),
              assignArray (p ''weights'') (\<lambda>arr s. s\<lparr> weights := arr \<rparr>),
              assignArray (p ''hrddStrategy'') (\<lambda>arr s. s\<lparr> hrddStrategy := arr \<rparr>),
              assignArray (p ''transparencyEffectiveness'')
                (\<lambda>arr s. s\<lparr> transparencyEffectiveness :=
                              normalizeTransparencyEffectiveness (readFloat E) (JArr arr) \<rparr>),
              assignArray (p ''responsivenessStrategy'')
                (\<lambda>arr s. s\<lparr> responsivenessStrategy := arr \<rparr>),
              assignArray (p ''responsivenessEffectiveness'')
                (\<lambda>arr s. s\<lparr> responsivenessEffectiveness :=
                              normalizeResponsivenessEffectiveness (readFloat E)
                                (defaultResponsivenessEffectiveness E) (responsivenessLabels E)
                                (JArr arr) \<rparr>),
              whenNumber (p ''focus'') (\<lambda>n s. s\<lparr> focus := clamp01 (readFloat E) (JNum n) \<rparr>),
              whenNumber (p ''riskConcentration'') (\<lambda>n s. s\<lparr> riskConcentration := n \<rparr>),
              whenObject (p ''countryVolumes'')
                (\<lambda>obj s. s\<lparr> countryVolumes := normalizeKeys obj \<rparr>),
              whenObject (p ''countryRisks'')
                (\<lambda>obj s. s\<lparr> countryRisks := normalizeKeys obj \<rparr>),
              whenObject (p ''countryManagedRisks'')
                (\<lambda>obj s. s\<lparr> countryManagedRisks := JObj (normalizeKeys obj) \<rparr>),
              whenDefined (p ''baselineRisk'') (\<lambda>v s. s\<lparr> baselineRisk := v \<rparr>),
              whenDefined (p ''managedRisk'') (\<lambda>v s. s\<lparr> managedRisk := v \<rparr>),
              whenDefined (p ''loading'') (\<lambda>v s. s\<lparr> loading := v \<rparr>),
              whenDefined (p ''error'') (\<lambda>v s. s\<lparr> error := v \<rparr>),
              whenDefined (p ''apiHealthy'') (\<lambda>v s. s\<lparr> apiHealthy := v \<rparr>),
              whenDefined (p ''lastUpdate'') (\<lambda>v s. s\<lparr> lastUpdate := v \<rparr>),
              whenDefined (p ''isGeneratingReport'') (\<lambda>v s. s\<lparr> isGeneratingReport := v \<rparr>),
              whenNumber (p ''currentPanel'')
                (\<lambda>n s. s\<lparr> currentPanel :=
                            JNum (Math_max (Fin 1) (Math_min (Fin 5) (Math_round n))) \<rparr>),
              (\<lambda>s. s\<lparr> isDirty := True \<rparr>),
              recalculate E,
              (\<lambda>s. s\<lparr> lastUpdate := JStr (now E) \<rparr>) ] s)"

subsection \<open>Persistence\<close>

text \<open>
  \<^verbatim>\<open>JSON.parse(JSON.stringify(v))\<close>, by its effect on a value: a number that is not
  finite and an \<^verbatim>\<open>undefined\<close> array entry come back as \<^verbatim>\<open>null\<close>, a property whose
  value is \<^verbatim>\<open>undefined\<close> is left out, everything else comes back as it was. The text
  in between is not modelled.
\<close>

fun json :: "jsval \<Rightarrow> jsval" where
  "json (JNum (Fin r)) = JNum (Fin r)"
| "json (JNum n) = JNull"
| "json JUndefined = JNull"
| "json JNull = JNull"
| "json (JBool b) = JBool b"
| "json (JStr s) = JStr s"
| "json (JArr xs) = JArr (map json xs)"
| "json (JObj kvs) = JObj (map (\<lambda>(k, v). (k, json v)) (filter (\<lambda>(k, v). v \<noteq> JUndefined) kvs))"

text \<open>
  The store is the item \<^verbatim>\<open>hrdd_app_state_v5\<close> of \<^verbatim>\<open>localStorage\<close>, held as the value
  that \<^verbatim>\<open>JSON.parse\<close> returns for it; \<open>None\<close> when there is no item or its text does
  not parse.
\<close>

type_synonym store = "jsval option"

definition snapshot :: "app_state \<Rightarrow> jsval" where
  "snapshot s =
     JObj ([ (''selectedCountries'', JArr (selectedCountries s)),
             (''weights'', JArr (weights s)),
             (''hrddStrategy'', JArr (hrddStrategy s)),
             (''transparencyEffectiveness'', JArr (map JNum (transparencyEffectiveness s))),
             (''responsivenessStrategy'', JArr (responsivenessStrategy s)),
             (''responsivenessEffectiveness'', JArr (map JNum (responsivenessEffectiveness s))),
             (''focus'', JNum (focus s)),
             (''riskConcentration'', JNum (riskConcentration s)),
             (''countryVolumes'', JObj (countryVolumes s)) ]
           @ (if ENABLE_PANEL_6
              then [ (''supplierCount'', JNum (supplierCount s)),
                     (''hourlyRate'', JNum (hourlyRate s)),
                     (''toolAnnualProgrammeCosts'', JArr (map JNum (toolAnnualProgrammeCosts s))),
                     (''toolPerSupplierCosts'', JArr (map JNum (toolPerSupplierCosts s))),
                     (''toolInternalHours'', JArr (map JNum (toolInternalHours s))),
                     (''toolRemedyInternalHours'', JArr (map JNum (toolRemedyInternalHours s))),
                     (''saqConstraintEnabled'', JBool (saqConstraintEnabled s)),
                     (''socialAuditConstraintEnabled'', JBool (socialAuditConstraintEnabled s)),
                     (''socialAuditCostReduction'',
                        JNum (if Number_isFinite (JNum (socialAuditCostReduction s))
                              then socialAuditCostReduction s else Fin 50)) ]
              else []))"

definition saveState :: "env \<Rightarrow> app_state \<times> store \<Rightarrow> app_state \<times> store" where
  "saveState E = (\<lambda>(s, st).
     if storageWritable E then (s\<lparr> isDirty := False \<rparr>, Some (json (snapshot s)))
     else (s, st))"

text \<open>\<^verbatim>\<open>Math.max(0, Number.isFinite(value) ? value : 0)\<close> of the restored cost arrays.\<close>

fun restoredCost :: "jsval \<Rightarrow> jsnum" where
  "restoredCost (JNum (Fin r)) = Math_max (Fin 0) (Fin r)"
| "restoredCost _ = Math_max (Fin 0) (Fin 0)"

definition restoreState :: "env \<Rightarrow> app_state \<times> store \<Rightarrow> bool \<times> app_state" where
  "restoreState E = (\<lambda>(s, st).
     case st of
       None \<Rightarrow> (False, s)
     | Some JNull \<Rightarrow> (False, s)
     | Some parsed \<Rightarrow>
         let p = get_prop parsed;
             restored =
               (Array_isArray (p ''weights'') \<or> Array_isArray (p ''selectedCountries'') \<or>
                Array_isArray (p ''hrddStrategy'') \<or>
                Array_isArray (p ''transparencyEffectiveness'') \<or>
                Array_isArray (p ''responsivenessStrategy'') \<or>
                Array_isArray (p ''responsivenessEffectiveness'') \<or>
                (case p ''focus'' of JNum _ \<Rightarrow> True | _ \<Rightarrow> False) \<or>
                (ENABLE_PANEL_6 \<and>
                  ((case p ''supplierCount'' of JNum _ \<Rightarrow> True | _ \<Rightarrow> False) \<or>
                   (case p ''hourlyRate'' of JNum _ \<Rightarrow> True | _ \<Rightarrow> False) \<or>
                   Array_isArray (p ''toolAnnualProgrammeCosts'') \<or>
                   Array_isArray (p ''toolPerSupplierCosts'') \<or>
                   Array_isArray (p ''toolInternalHours'') \<or>
                   Array_isArray (p ''toolRemedyInternalHours'') \<or>
                   (case p ''saqConstraintEnabled'' of JBool _ \<Rightarrow> True | _ \<Rightarrow> False) \<or>
                   (case p ''socialAuditConstraintEnabled'' of JBool _ \<Rightarrow> True | _ \<Rightarrow> False) \<or>
                   (case p ''socialAuditCostReduction'' of JNum _ \<Rightarrow> True | _ \<Rightarrow> False))) \<or>
                (case p ''riskConcentration'' of JNum _ \<Rightarrow> True | _ \<Rightarrow> False) \<or>
                (truthy (p ''countryVolumes'') \<and> typeof_object (p ''countryVolumes'')))
         in (restored,
             run ([ assignArray (p ''weights'') (\<lambda>arr s. s\<lparr> weights := arr \<rparr>),
                    assignArray (p ''selectedCountries'')
                      (\<lambda>arr s. s\<lparr> selectedCountries :=
                                    filter truthy (map (normalizeCode (JStr [])) arr) \<rparr>),
                    assignArray (p ''hrddStrategy'') (\<lambda>arr s. s\<lparr> hrddStrategy := arr \<rparr>),
                    assignArray (p ''transparencyEffectiveness'')
                      (\<lambda>arr s. s\<lparr> transparencyEffectiveness :=
                                    normalizeTransparencyEffectiveness (readFloat E) (JArr arr) \<rparr>),
                    assignArray (p ''responsivenessStrategy'')
                      (\<lambda>arr s. s\<lparr> responsivenessStrategy := arr \<rparr>),
                    assignArray (p ''responsivenessEffectiveness'')
                      (\<lambda>arr s. s\<lparr> responsivenessEffectiveness :=
                                    normalizeResponsivenessEffectiveness (readFloat E)
                                      (defaultResponsivenessEffectiveness E)
                                      (responsivenessLabels E) (JArr arr) \<rparr>),
                    whenNumber (p ''focus'')
                      (\<lambda>n s. s\<lparr> focus := clamp01 (readFloat E) (JNum n) \<rparr>) ]
                  @ (if ENABLE_PANEL_6
                     then [ whenNumber (p ''supplierCount'')
                              (\<lambda>n s. s\<lparr> supplierCount := Math_max (Fin 1) (Math_floor n) \<rparr>),
                            whenNumber (p ''hourlyRate'')
                              (\<lambda>n s. s\<lparr> hourlyRate := Math_max (Fin 0) n \<rparr>),
                            assignArray (p ''toolAnnualProgrammeCosts'')
                              (\<lambda>arr s. s\<lparr> toolAnnualProgrammeCosts := map restoredCost arr \<rparr>),
                            assignArray (p ''toolPerSupplierCosts'')
                              (\<lambda>arr s. s\<lparr> toolPerSupplierCosts := map restoredCost arr \<rparr>),
                            assignArray (p ''toolInternalHours'')
                              (\<lambda>arr s. s\<lparr> toolInternalHours := map restoredCost arr \<rparr>),
                            assignArray (p ''toolRemedyInternalHours'')
                              (\<lambda>arr s. s\<lparr> toolRemedyInternalHours := map restoredCost arr \<rparr>),
                            whenBoolean (p ''saqConstraintEnabled'')
                              (\<lambda>b s. s\<lparr> saqConstraintEnabled := b \<rparr>),
                            whenBoolean (p ''socialAuditConstraintEnabled'')
                              (\<lambda>b s. s\<lparr> socialAuditConstraintEnabled := b \<rparr>),
                            whenNumber (p ''socialAuditCostReduction'')
                              (\<lambda>n s. s\<lparr> socialAuditCostReduction :=
                                          Math_max (Fin 0) (Math_min (Fin 100) n) \<rparr>) ]
                     else [])
                  @ [ whenNumber (p ''riskConcentration'')
                        (\<lambda>n s. s\<lparr> riskConcentration := n \<rparr>),
                      whenObject (p ''countryVolumes'')
                        (\<lambda>obj s. s\<lparr> countryVolumes := normalizeKeys obj \<rparr>),
                      (\<lambda>s. s\<lparr> isDirty := False \<rparr>) ]) s))"

subsection \<open>A concrete environment\<close>

text \<open>
  An environment for concrete runs: an engine without defaults whose functions return
  \<^verbatim>\<open>undefined\<close> and leave their arguments alone, a reading under which no text is a
  number, and a writable store.
\<close>

definition demo_env :: env where
  "demo_env =
     \<lparr> readFloat = no_text,
       toText = (\<lambda>v. ''?''),
       now = ''2025-01-01T00:00:00.000Z'',
       storageWritable = True,
       defaultWeights = JUndefined,
       defaultFocus = JUndefined,
       defaultHRDDStrategy = JUndefined,
       defaultTransparencyEffectiveness = JUndefined,
       defaultResponsivenessStrategy = JUndefined,
       defaultResponsivenessEffectiveness = JUndefined,
       responsivenessLabels = JUndefined,
       calculateWeightedRisk = (\<lambda>country ws. JUndefined),
       generateBaselineSummary = (\<lambda>sel cs risks vols. JUndefined),
       generateRiskSummary = (\<lambda>b m sel h t rs re f c vols risks. JUndefined),
       engine_optimizeBudgetAllocation = (\<lambda>args. (JUndefined, args)) \<rparr>"


text \<open>
  The invariant of the portfolio selection: every key of \<^verbatim>\<open>countryVolumes\<close> is one of the
  selected country codes.
\<close>

definition volumes_selected :: "app_state \<Rightarrow> bool" where
  "volumes_selected s =
     list_all (\<lambda>k. JStr k \<in> set (selectedCountries s)) (keys (countryVolumes s))"

section \<open>The detailed budget breakdown\<close>

text \<open>
  \<^verbatim>\<open>buildBreakdown\<close> is a closure of \<^verbatim>\<open>renderDetailedBudgetBreakdown\<close>. The variables it
  reads from the enclosing function are the fields of its context: the tool labels of the
  engine, the sanitized supplier count and hourly rate, the four arrays of cost
  assumptions (arrays of numbers: the panel passes sanitized ones), the reduction factor
  and the indices of the audit tools.
\<close>

record breakdown_context =
  hrddStrategyLabels :: "jsval list"
  safeSupplierCount :: jsnum
  safeHourlyRate :: jsnum
  safeAnnualCosts :: "jsnum list"
  safePerSupplierCosts :: "jsnum list"
  safeInternalHours :: "jsnum list"
  safeRemedyHours :: "jsnum list"
  socialAuditReductionFactor :: jsnum
  socialAuditToolIndexes :: "nat list"

















section \<open>The fallback stage attribution of the final results panel\<close>







section \<open>Properties\<close>

subsection \<open>Clamping\<close>


subsection \<open>The effectiveness normalizers\<close>














subsection \<open>The audit coverage target\<close>







subsection \<open>Sanitized cost assumptions\<close>

lemma sanitize_entry:
  assumes "0 \<le> cap"
  shows "Math_min (Fin cap) (Math_max (Fin 0) (or_zero n)) =
     (case n of Fin r \<Rightarrow> Fin (min cap (max 0 r)) | PInf \<Rightarrow> Fin cap | _ \<Rightarrow> Fin 0)"
  using assms by (cases n) (simp_all add: or_zero_def max_def min_def)

lemma sanitizeArray_length: "length (sanitizeArray pf values len mn mx) = len"
  by (simp add: sanitizeArray_def Let_def)

lemma sanitizeArray_nth:
  assumes "i < len" and "0 \<le> cap"
  shows "sanitizeArray pf values len (Fin 0) (Fin cap) ! i =
     (case parseFloat pf (at_index (case values of JArr vs \<Rightarrow> vs | _ \<Rightarrow> []) i) of
        Fin r \<Rightarrow> Fin (min cap (max 0 r)) | PInf \<Rightarrow> Fin cap | _ \<Rightarrow> Fin 0)"
  using assms by (simp add: sanitizeArray_def Let_def sanitize_entry)

lemma sanitizeArray_range:
  assumes "e \<in> set (sanitizeArray pf values len (Fin 0) (Fin cap))" and "0 \<le> cap"
  shows "in_range 0 cap e"
proof -
  from assms(1) obtain i where i: "i < len"
    and e: "e = sanitizeArray pf values len (Fin 0) (Fin cap) ! i"
    by (metis in_set_conv_nth sanitizeArray_length)
  show ?thesis unfolding e sanitizeArray_nth[OF i assms(2)] using assms(2)
    by (simp split: jsnum.splits)
qed

lemma sanitizeArray_missing:
  assumes "i < len" and "0 \<le> cap"
    and "parseFloat pf (at_index (case values of JArr vs \<Rightarrow> vs | _ \<Rightarrow> []) i) = NaN"
  shows "sanitizeArray pf values len (Fin 0) (Fin cap) ! i = Fin 0"
  using assms by (simp add: sanitizeArray_nth)

lemma at_index_missing:
  "length (case values of JArr vs \<Rightarrow> vs | _ \<Rightarrow> []) \<le> i \<Longrightarrow>
   parseFloat pf (at_index (case values of JArr vs \<Rightarrow> vs | _ \<Rightarrow> []) i) = NaN"
  by (simp add: at_index_def)

lemma sanitized_entry:
  assumes "i < len" and "0 \<le> cap"
  shows "sanitizeArray pf values len (Fin 0) (Fin cap) ! i =
     (case parseFloat pf (at_index (case values of JArr vs \<Rightarrow> vs | _ \<Rightarrow> []) i) of
        Fin r \<Rightarrow> Fin (min cap (max 0 r)) | PInf \<Rightarrow> Fin cap | _ \<Rightarrow> Fin 0) \<and>
     (length (case values of JArr vs \<Rightarrow> vs | _ \<Rightarrow> []) \<le> i \<longrightarrow>
        sanitizeArray pf values len (Fin 0) (Fin cap) ! i = Fin 0)"
  using assms by (simp add: sanitizeArray_nth sanitizeArray_missing at_index_missing)

text \<open>
  Claim C10. Each of the four sanitized arrays of \<^verbatim>\<open>createCostAnalysisPanel\<close> has one
  entry per tool label, and the entry of each array at each tool index is the given entry
  clamped to the floor 0 and to the cap of that array: 50000 for the annual programme
  cost, 2000 for the per-supplier cost, 500 for the detection hours and 200 for the
  remedy hours. A finite entry \<open>r\<close> gives \<open>min cap (max 0 r)\<close>, positive infinity gives
  the cap, an entry that does not read as a number gives 0, and so does an index that the
  given array does not have. So every entry is a finite number between 0 and the cap.
  The same holds of \<^verbatim>\<open>sanitizeArray\<close> with any length and cap, and the input listeners
  apply the same floor and caps.
\<close>

theorem sanitized_costs_capped:
  "length (sanitizedToolAnnualProgrammeCosts pf labels annual) = strategyCount labels \<and>
   length (sanitizedToolPerSupplierCosts pf labels perSupplier) = strategyCount labels \<and>
   length (sanitizedToolInternalHours pf labels hours) = strategyCount labels \<and>
   length (sanitizedToolRemedyInternalHours pf labels remedy) = strategyCount labels \<and>
   (\<forall>e \<in> set (sanitizedToolAnnualProgrammeCosts pf labels annual). in_range 0 50000 e) \<and>
   (\<forall>e \<in> set (sanitizedToolPerSupplierCosts pf labels perSupplier). in_range 0 2000 e) \<and>
   (\<forall>e \<in> set (sanitizedToolInternalHours pf labels hours). in_range 0 500 e) \<and>
   (\<forall>e \<in> set (sanitizedToolRemedyInternalHours pf labels remedy). in_range 0 200 e) \<and>
   (\<forall>i < strategyCount labels.
      sanitizedToolAnnualProgrammeCosts pf labels annual ! i =
        (case parseFloat pf (at_index (case annual of JArr vs \<Rightarrow> vs | _ \<Rightarrow> []) i) of
           Fin r \<Rightarrow> Fin (min 50000 (max 0 r)) | PInf \<Rightarrow> Fin 50000 | _ \<Rightarrow> Fin 0) \<and>
      (length (case annual of JArr vs \<Rightarrow> vs | _ \<Rightarrow> []) \<le> i \<longrightarrow>
         sanitizedToolAnnualProgrammeCosts pf labels annual ! i = Fin 0)) \<and>
   (\<forall>i < strategyCount labels.
      sanitizedToolPerSupplierCosts pf labels perSupplier ! i =
        (case parseFloat pf (at_index (case perSupplier of JArr vs \<Rightarrow> vs | _ \<Rightarrow> []) i) of
           Fin r \<Rightarrow> Fin (min 2000 (max 0 r)) | PInf \<Rightarrow> Fin 2000 | _ \<Rightarrow> Fin 0) \<and>
      (length (case perSupplier of JArr vs \<Rightarrow> vs | _ \<Rightarrow> []) \<le> i \<longrightarrow>
         sanitizedToolPerSupplierCosts pf labels perSupplier ! i = Fin 0)) \<and>
   (\<forall>i < strategyCount labels.
      sanitizedToolInternalHours pf labels hours ! i =
        (case parseFloat pf (at_index (case hours of JArr vs \<Rightarrow> vs | _ \<Rightarrow> []) i) of
           Fin r \<Rightarrow> Fin (min 500 (max 0 r)) | PInf \<Rightarrow> Fin 500 | _ \<Rightarrow> Fin 0) \<and>
      (length (case hours of JArr vs \<Rightarrow> vs | _ \<Rightarrow> []) \<le> i \<longrightarrow>
         sanitizedToolInternalHours pf labels hours ! i = Fin 0)) \<and>
   (\<forall>i < strategyCount labels.
      sanitizedToolRemedyInternalHours pf labels remedy ! i =
        (case parseFloat pf (at_index (case remedy of JArr vs \<Rightarrow> vs | _ \<Rightarrow> []) i) of
           Fin r \<Rightarrow> Fin (min 200 (max 0 r)) | PInf \<Rightarrow> Fin 200 | _ \<Rightarrow> Fin 0) \<and>
      (length (case remedy of JArr vs \<Rightarrow> vs | _ \<Rightarrow> []) \<le> i \<longrightarrow>
         sanitizedToolRemedyInternalHours pf labels remedy ! i = Fin 0)) \<and>
   (\<forall>i < len. \<forall>cap \<ge> 0.
      sanitizeArray pf values len (Fin 0) (Fin cap) ! i =
        (case parseFloat pf (at_index (case values of JArr vs \<Rightarrow> vs | _ \<Rightarrow> []) i) of
           Fin r \<Rightarrow> Fin (min cap (max 0 r)) | PInf \<Rightarrow> Fin cap | _ \<Rightarrow> Fin 0) \<and>
      (length (case values of JArr vs \<Rightarrow> vs | _ \<Rightarrow> []) \<le> i \<longrightarrow>
         sanitizeArray pf values len (Fin 0) (Fin cap) ! i = Fin 0)) \<and>
   (\<forall>cap \<ge> 0. \<forall>r. newValue cap (Fin r) = Fin (min cap (max 0 r)))"
proof -
  have lens:
    "length (sanitizedToolAnnualProgrammeCosts pf labels annual) = strategyCount labels"
    "length (sanitizedToolPerSupplierCosts pf labels perSupplier) = strategyCount labels"
    "length (sanitizedToolInternalHours pf labels hours) = strategyCount labels"
    "length (sanitizedToolRemedyInternalHours pf labels remedy) = strategyCount labels"
    by (simp_all add: sanitizedToolAnnualProgrammeCosts_def sanitizedToolPerSupplierCosts_def
          sanitizedToolInternalHours_def sanitizedToolRemedyInternalHours_def
          sanitizeArray_length)
  have ranges:
    "\<forall>e \<in> set (sanitizedToolAnnualProgrammeCosts pf labels annual). in_range 0 50000 e"
    "\<forall>e \<in> set (sanitizedToolPerSupplierCosts pf labels perSupplier). in_range 0 2000 e"
    "\<forall>e \<in> set (sanitizedToolInternalHours pf labels hours). in_range 0 500 e"
    "\<forall>e \<in> set (sanitizedToolRemedyInternalHours pf labels remedy). in_range 0 200 e"
    by (simp_all add: sanitizedToolAnnualProgrammeCosts_def sanitizedToolPerSupplierCosts_def
          sanitizedToolInternalHours_def sanitizedToolRemedyInternalHours_def
          sanitizeArray_range)
  have annual: "\<forall>i < strategyCount labels.
      sanitizedToolAnnualProgrammeCosts pf labels annual ! i =
        (case parseFloat pf (at_index (case annual of JArr vs \<Rightarrow> vs | _ \<Rightarrow> []) i) of
           Fin r \<Rightarrow> Fin (min 50000 (max 0 r)) | PInf \<Rightarrow> Fin 50000 | _ \<Rightarrow> Fin 0) \<and>
      (length (case annual of JArr vs \<Rightarrow> vs | _ \<Rightarrow> []) \<le> i \<longrightarrow>
         sanitizedToolAnnualProgrammeCosts pf labels annual ! i = Fin 0)"
    unfolding sanitizedToolAnnualProgrammeCosts_def
  proof (intro allI impI)
    fix i assume "i < strategyCount labels"
    then show "sanitizeArray pf annual (strategyCount labels) (Fin 0) (Fin 50000) ! i =
        (case parseFloat pf (at_index (case annual of JArr vs \<Rightarrow> vs | _ \<Rightarrow> []) i) of
           Fin r \<Rightarrow> Fin (min 50000 (max 0 r)) | PInf \<Rightarrow> Fin 50000 | _ \<Rightarrow> Fin 0) \<and>
      (length (case annual of JArr vs \<Rightarrow> vs | _ \<Rightarrow> []) \<le> i \<longrightarrow>
         sanitizeArray pf annual (strategyCount labels) (Fin 0) (Fin 50000) ! i = Fin 0)"
      by (rule sanitized_entry) simp
  qed
  have perSupplier: "\<forall>i < strategyCount labels.
      sanitizedToolPerSupplierCosts pf labels perSupplier ! i =
        (case parseFloat pf (at_index (case perSupplier of JArr vs \<Rightarrow> vs | _ \<Rightarrow> []) i) of
           Fin r \<Rightarrow> Fin (min 2000 (max 0 r)) | PInf \<Rightarrow> Fin 2000 | _ \<Rightarrow> Fin 0) \<and>
      (length (case perSupplier of JArr vs \<Rightarrow> vs | _ \<Rightarrow> []) \<le> i \<longrightarrow>
         sanitizedToolPerSupplierCosts pf labels perSupplier ! i = Fin 0)"
    unfolding sanitizedToolPerSupplierCosts_def
  proof (intro allI impI)
    fix i assume "i < strategyCount labels"
    then show "sanitizeArray pf perSupplier (strategyCount labels) (Fin 0) (Fin 2000) ! i =
        (case parseFloat pf (at_index (case perSupplier of JArr vs \<Rightarrow> vs | _ \<Rightarrow> []) i) of
           Fin r \<Rightarrow> Fin (min 2000 (max 0 r)) | PInf \<Rightarrow> Fin 2000 | _ \<Rightarrow> Fin 0) \<and>
      (length (case perSupplier of JArr vs \<Rightarrow> vs | _ \<Rightarrow> []) \<le> i \<longrightarrow>
         sanitizeArray pf perSupplier (strategyCount labels) (Fin 0) (Fin 2000) ! i = Fin 0)"
      by (rule sanitized_entry) simp
  qed
  have hours: "\<forall>i < strategyCount labels.
      sanitizedToolInternalHours pf labels hours ! i =
        (case parseFloat pf (at_index (case hours of JArr vs \<Rightarrow> vs | _ \<Rightarrow> []) i) of
           Fin r \<Rightarrow> Fin (min 500 (max 0 r)) | PInf \<Rightarrow> Fin 500 | _ \<Rightarrow> Fin 0) \<and>
      (length (case hours of JArr vs \<Rightarrow> vs | _ \<Rightarrow> []) \<le> i \<longrightarrow>
         sanitizedToolInternalHours pf labels hours ! i = Fin 0)"
    unfolding sanitizedToolInternalHours_def
  proof (intro allI impI)
    fix i assume "i < strategyCount labels"
    then show "sanitizeArray pf hours (strategyCount labels) (Fin 0) (Fin 500) ! i =
        (case parseFloat pf (at_index (case hours of JArr vs \<Rightarrow> vs | _ \<Rightarrow> []) i) of
           Fin r \<Rightarrow> Fin (min 500 (max 0 r)) | PInf \<Rightarrow> Fin 500 | _ \<Rightarrow> Fin 0) \<and>
      (length (case hours of JArr vs \<Rightarrow> vs | _ \<Rightarrow> []) \<le> i \<longrightarrow>
         sanitizeArray pf hours (strategyCount labels) (Fin 0) (Fin 500) ! i = Fin 0)"
      by (rule sanitized_entry) simp
  qed
  have remedy: "\<forall>i < strategyCount labels.
      sanitizedToolRemedyInternalHours pf labels remedy ! i =
        (case parseFloat pf (at_index (case remedy of JArr vs \<Rightarrow> vs | _ \<Rightarrow> []) i) of
           Fin r \<Rightarrow> Fin (min 200 (max 0 r)) | PInf \<Rightarrow> Fin 200 | _ \<Rightarrow> Fin 0) \<and>
      (length (case remedy of JArr vs \<Rightarrow> vs | _ \<Rightarrow> []) \<le> i \<longrightarrow>
         sanitizedToolRemedyInternalHours pf labels remedy ! i = Fin 0)"
    unfolding sanitizedToolRemedyInternalHours_def
  proof (intro allI impI)
    fix i assume "i < strategyCount labels"
    then show "sanitizeArray pf remedy (strategyCount labels) (Fin 0) (Fin 200) ! i =
        (case parseFloat pf (at_index (case remedy of JArr vs \<Rightarrow> vs | _ \<Rightarrow> []) i) of
           Fin r \<Rightarrow> Fin (min 200 (max 0 r)) | PInf \<Rightarrow> Fin 200 | _ \<Rightarrow> Fin 0) \<and>
      (length (case remedy of JArr vs \<Rightarrow> vs | _ \<Rightarrow> []) \<le> i \<longrightarrow>
         sanitizeArray pf remedy (strategyCount labels) (Fin 0) (Fin 200) ! i = Fin 0)"
      by (rule sanitized_entry) simp
  qed
  have general: "\<forall>i < len. \<forall>cap \<ge> 0.
      sanitizeArray pf values len (Fin 0) (Fin cap) ! i =
        (case parseFloat pf (at_index (case values of JArr vs \<Rightarrow> vs | _ \<Rightarrow> []) i) of
           Fin r \<Rightarrow> Fin (min cap (max 0 r)) | PInf \<Rightarrow> Fin cap | _ \<Rightarrow> Fin 0) \<and>
      (length (case values of JArr vs \<Rightarrow> vs | _ \<Rightarrow> []) \<le> i \<longrightarrow>
         sanitizeArray pf values len (Fin 0) (Fin cap) ! i = Fin 0)"
    using sanitized_entry by blast
  have listeners: "\<forall>cap \<ge> 0. \<forall>r. newValue cap (Fin r) = Fin (min cap (max 0 r))"
    by (simp add: newValue_def max_def min_def)
  from lens ranges annual perSupplier hours remedy general listeners
  show ?thesis by (intro conjI)
qed

theorem sanitized_costs_capped_witness:
  "sanitizedToolAnnualProgrammeCosts no_text (JArr (map JStr [''a'', ''b'', ''c'', ''d'']))
      (JArr [JNum (Fin 12000), JNum (Fin 90000), JStr ''n/a''])
     = [Fin 12000, Fin 50000, Fin 0, Fin 0] \<and>
   in_range 0 50000 (Fin 50000) \<and>
   sanitizedToolPerSupplierCosts no_text (JArr (map JStr [''a'', ''b'', ''c'', ''d'']))
      (JArr [JNum (Fin (- 5)), JNum PInf, JNum NaN, JNum (Fin 120)])
     = [Fin 0, Fin 2000, Fin 0, Fin 120] \<and>
   sanitizedToolInternalHours no_text (JArr (map JStr [''a'', ''b''])) JUndefined = [Fin 0, Fin 0] \<and>
   sanitizedToolInternalHours no_text (JArr (map JStr [''a'', ''b'', ''c'', ''d'']))
      (JArr [JNum (Fin 300), JNum (Fin 700), JNum (Fin (- 1))])
     = [Fin 300, Fin 500, Fin 0, Fin 0] \<and>
   sanitizedToolInternalHours no_text (JArr (map JStr [''a'', ''b'', ''c'', ''d'']))
      (JArr [JNum (Fin 300), JNum (Fin 700), JNum (Fin (- 1))]) ! 1 = Fin (min 500 (max 0 700)) \<and>
   sanitizedToolRemedyInternalHours no_text (JArr (map JStr [''a'', ''b'']))
      (JArr [JNum (Fin 300), JNum (Fin 10), JNum (Fin 7)]) = [Fin 200, Fin 10] \<and>
   newValue 500 (Fin 600) = Fin 500"
  using sanitized_costs_capped
          [of no_text "JArr (map JStr [''a'', ''b'', ''c'', ''d''])"
              "JArr [JNum (Fin 12000), JNum (Fin 90000), JStr ''n/a'']"
              "JArr [JNum (Fin (- 5)), JNum PInf, JNum NaN, JNum (Fin 120)]"
              "JArr [JNum (Fin 300), JNum (Fin 700), JNum (Fin (- 1))]"
              "JArr [JNum (Fin 300), JNum (Fin 10), JNum (Fin 7)]"
              4 "JArr [JNum (Fin 12000), JNum (Fin 90000), JStr ''n/a'']"]
  by (simp add: sanitizedToolAnnualProgrammeCosts_def sanitizedToolPerSupplierCosts_def
        sanitizedToolInternalHours_def sanitizedToolRemedyInternalHours_def
        sanitizeArray_def strategyCount_def at_index_def or_zero_def no_text_def upt_rec
        newValue_def)

subsection \<open>The SAQ constraint of onHRDDStrategyChange\<close>





subsection \<open>Statements and the fields they leave alone\<close>

lemma run_Nil: "run [] s = s"
  by (simp add: run_def)

lemma run_Cons: "run (statement # statements) s = run statements (statement s)"
  by (simp add: run_def)

lemma assignArray_frame:
  assumes "\<And>arr s. g (assign arr s) = g s"
  shows "g (assignArray v assign s) = g s"
  using assms by (cases v) (simp_all add: assignArray_def)

lemma whenNumber_frame:
  assumes "\<And>n s. g (assign n s) = g s"
  shows "g (whenNumber v assign s) = g s"
  using assms by (cases v) (simp_all add: whenNumber_def)

lemma whenBoolean_frame:
  assumes "\<And>b s. g (assign b s) = g s"
  shows "g (whenBoolean v assign s) = g s"
  using assms by (cases v) (simp_all add: whenBoolean_def)

lemma whenObject_frame:
  assumes "\<And>obj s. g (assign obj s) = g s"
  shows "g (whenObject v assign s) = g s"
  using assms by (simp add: whenObject_def)

lemma whenDefined_frame:
  assumes "\<And>x s. g (assign x s) = g s"
  shows "g (whenDefined v assign s) = g s"
  using assms by (simp add: whenDefined_def)

lemmas currentPanel_frame =
  assignArray_frame [where g = currentPanel] whenNumber_frame [where g = currentPanel]
  whenBoolean_frame [where g = currentPanel] whenObject_frame [where g = currentPanel]
  whenDefined_frame [where g = currentPanel]

lemma currentPanel_recalculate: "currentPanel (recalculate E s) = currentPanel s"
  by (simp add: recalculate_def calculateAllRisks_def calculateBaselineRisk_def
        calculateManagedRisk_def Let_def)

subsection \<open>The panel that setState leaves\<close>

lemma currentPanel_whenNumber_set:
  "currentPanel (whenNumber v (\<lambda>n s. s\<lparr> currentPanel := F n \<rparr>) s) =
     (case v of JNum n \<Rightarrow> F n | _ \<Rightarrow> currentPanel s)"
  by (cases v) (simp_all add: whenNumber_def)

text \<open>What \<^verbatim>\<open>setState\<close> accepts: \<^verbatim>\<open>undefined\<close> (the default \<^verbatim>\<open>{}\<close>), an object or an array.\<close>

lemma setState_currentPanel:
  "currentPanel (setState E partial s) =
     (if partial \<noteq> JUndefined \<and> (\<not> truthy partial \<or> \<not> typeof_object partial)
      then currentPanel s
      else case get_prop partial ''currentPanel'' of
             JNum n \<Rightarrow> JNum (Math_max (Fin 1) (Math_min (Fin 5) (Math_round n)))
           | _ \<Rightarrow> currentPanel s)"
proof (cases "partial = JUndefined")
  case True
  then show ?thesis
    by (simp add: setState_def Let_def run_Cons run_Nil currentPanel_recalculate currentPanel_frame
          currentPanel_whenNumber_set)
next
  case False
  then have ps: "(case partial of JUndefined \<Rightarrow> JObj [] | v \<Rightarrow> v) = partial"
    by (cases partial) simp_all
  show ?thesis
  proof (cases "get_prop partial ''currentPanel''")
    case (JNum n)
    then show ?thesis using False
      by (simp add: setState_def Let_def ps run_Cons run_Nil currentPanel_recalculate
            currentPanel_frame currentPanel_whenNumber_set)
  qed (use False in \<open>simp_all add: setState_def Let_def ps run_Cons run_Nil currentPanel_recalculate
            currentPanel_frame currentPanel_whenNumber_set\<close>)
qed

lemma clamp_panel_of_int:
  "Math_max (Fin 1) (Math_min (Fin 5) (Fin (of_int k))) = Fin (of_int (max 1 (min 5 k)))"
proof -
  have "(of_int k :: real) < 5 \<longleftrightarrow> k < 5" "(of_int k :: real) < 1 \<longleftrightarrow> k < 1"
    "(5 :: real) < of_int k \<longleftrightarrow> 5 < k" "(1 :: real) < of_int k \<longleftrightarrow> 1 < k"
    by linarith+
  then show ?thesis by (auto simp: max_def min_def)
qed

lemma clamp_panel_Fin:
  "Math_max (Fin 1) (Math_min (Fin 5) (Math_round (Fin r))) =
     Fin (of_int (max 1 (min 5 \<lfloor>r + 1 / 2\<rfloor>)))"
  by (simp only: Math_round.simps clamp_panel_of_int)

lemma clamp_panel_cases:
  "Math_max (Fin 1) (Math_min (Fin 5) (Math_round n)) =
     (case n of Fin r \<Rightarrow> Fin (of_int (max 1 (min 5 \<lfloor>r + 1 / 2\<rfloor>)))
      | PInf \<Rightarrow> Fin 5 | NInf \<Rightarrow> Fin 1 | NaN \<Rightarrow> NaN)"
  by (cases n) (simp_all add: clamp_panel_Fin del: Math_round.simps, simp_all)

lemma clamp_panel_not_6: "Math_max (Fin 1) (Math_min (Fin 5) (Math_round n)) \<noteq> Fin 6"
proof (cases n)
  case (Fin r)
  have "max 1 (min 5 \<lfloor>r + 1 / 2\<rfloor>) \<noteq> (6::int)" by simp
  then have "(of_int (max 1 (min 5 \<lfloor>r + 1 / 2\<rfloor>)) :: real) \<noteq> of_int 6"
    by (simp only: of_int_eq_iff not_False_eq_True)
  then show ?thesis unfolding Fin clamp_panel_Fin by simp
qed simp_all

lemma clamp_panel_in_range:
  assumes "n \<noteq> NaN"
  shows "\<exists>k \<in> {1 .. 5 :: int}. Math_max (Fin 1) (Math_min (Fin 5) (Math_round n)) = Fin (of_int k)"
proof (cases n)
  case (Fin r)
  have "max 1 (min 5 \<lfloor>r + 1 / 2\<rfloor>) \<in> {1 .. 5 :: int}" by simp
  then show ?thesis unfolding Fin clamp_panel_Fin by blast
next
  case PInf
  have "(5::int) \<in> {1 .. 5}" by simp
  moreover have "Math_max (Fin 1) (Math_min (Fin 5) (Math_round PInf)) = Fin (of_int 5)" by simp
  ultimately show ?thesis unfolding PInf by blast
next
  case NInf
  have "(1::int) \<in> {1 .. 5}" by simp
  moreover have "Math_max (Fin 1) (Math_min (Fin 5) (Math_round NInf)) = Fin (of_int 1)" by simp
  ultimately show ?thesis unfolding NInf by blast
qed (use assms in simp)

lemma get_prop_settable:
  assumes "get_prop partial k = JNum n"
  shows "partial \<noteq> JUndefined \<and> truthy partial \<and> typeof_object partial"
  using assms by (cases partial) simp_all

text \<open>
  Claim C9, as the code has it. A \<^verbatim>\<open>setState\<close> call whose argument carries a number as
  \<^verbatim>\<open>currentPanel\<close> stores \<^verbatim>\<open>Math.max(1, Math.min(5, Math.round(n)))\<close>: one of the
  integers 1 to 5 unless the number is NaN, which is stored as NaN, and never 6. A call
  whose argument carries no such number leaves \<^verbatim>\<open>currentPanel\<close> as it was.
  \<^verbatim>\<open>setCurrentPanel(6)\<close> does store 6.
\<close>

theorem setState_clamps_currentPanel:
  "(get_prop partial ''currentPanel'' = JNum n \<longrightarrow>
      currentPanel (setState E partial s) =
        JNum (Math_max (Fin 1) (Math_min (Fin 5) (Math_round n))) \<and>
      currentPanel (setState E partial s) \<noteq> JNum (Fin 6) \<and>
      (n \<noteq> NaN \<longrightarrow>
         (\<exists>k \<in> {1 .. 5 :: int}. currentPanel (setState E partial s) = JNum (Fin (of_int k)))) \<and>
      (\<forall>r. n = Fin r \<longrightarrow>
         currentPanel (setState E partial s) =
           JNum (Fin (of_int (max 1 (min 5 \<lfloor>r + 1 / 2\<rfloor>)))))) \<and>
   ((\<forall>m. get_prop partial ''currentPanel'' \<noteq> JNum m) \<longrightarrow>
      currentPanel (setState E partial s) = currentPanel s) \<and>
   currentPanel (setCurrentPanel (Fin 6) s) = JNum (Fin 6)"
proof (intro conjI impI allI)
  assume g: "get_prop partial ''currentPanel'' = JNum n"
  show v: "currentPanel (setState E partial s) =
        JNum (Math_max (Fin 1) (Math_min (Fin 5) (Math_round n)))"
    using g get_prop_settable[OF g] by (simp add: setState_currentPanel)
  show "currentPanel (setState E partial s) \<noteq> JNum (Fin 6)"
    unfolding v using clamp_panel_not_6 by simp
  show "\<exists>k \<in> {1 .. 5 :: int}. currentPanel (setState E partial s) = JNum (Fin (of_int k))"
    if "n \<noteq> NaN"
    unfolding v using clamp_panel_in_range[OF that] by simp
  show "currentPanel (setState E partial s) =
           JNum (Fin (of_int (max 1 (min 5 \<lfloor>r + 1 / 2\<rfloor>))))" if "n = Fin r" for r
    unfolding v that clamp_panel_Fin ..
next
  assume "\<forall>m. get_prop partial ''currentPanel'' \<noteq> JNum m"
  then show "currentPanel (setState E partial s) = currentPanel s"
    by (cases "get_prop partial ''currentPanel''") (simp_all add: setState_currentPanel)
next
  show "currentPanel (setCurrentPanel (Fin 6) s) = JNum (Fin 6)"
    by (simp add: setCurrentPanel_def ENABLE_PANEL_6_def)
qed

theorem setState_clamps_currentPanel_witness:
  "get_prop (JObj [(''currentPanel'', JNum (Fin 6))]) ''currentPanel'' = JNum (Fin 6) \<and>
   currentPanel (setState demo_env (JObj [(''currentPanel'', JNum (Fin 6))])
                   (initial_state demo_env)) = JNum (Fin 5) \<and>
   currentPanel (setState demo_env (JObj [(''weights'', JArr [])])
                   (initial_state demo_env)) = JNum (Fin 1)"
proof -
  have g: "get_prop (JObj [(''currentPanel'', JNum (Fin 6))]) ''currentPanel'' = JNum (Fin 6)"
    by simp
  have h: "\<forall>m. get_prop (JObj [(''weights'', JArr [])]) ''currentPanel'' \<noteq> JNum m"
    by simp
  have "currentPanel (setState demo_env (JObj [(''currentPanel'', JNum (Fin 6))])
                   (initial_state demo_env)) = JNum (Fin 5)"
    using setState_clamps_currentPanel
            [of "JObj [(''currentPanel'', JNum (Fin 6))]" "Fin 6" demo_env "initial_state demo_env"]
          g
    by simp
  moreover have "currentPanel (setState demo_env (JObj [(''weights'', JArr [])])
                   (initial_state demo_env)) = JNum (Fin 1)"
    using setState_clamps_currentPanel
            [of "JObj [(''weights'', JArr [])]" NaN demo_env "initial_state demo_env"] h
    by (simp add: initial_state_def)
  ultimately show ?thesis using g by simp
qed

text \<open>
  Claim C9 as stated fails twice. An application that \<^verbatim>\<open>setCurrentPanel(6)\<close> has put on
  panel 6 is still on panel 6 after a \<^verbatim>\<open>setState\<close> call that carries no
  \<^verbatim>\<open>currentPanel\<close>; and the number NaN is not clamped into the range 1 to 5.
\<close>

theorem setState_leaves_panel_6:
  "currentPanel (setState demo_env (JObj [(''focus'', JNum (Fin (1 / 2)))])
                   (setCurrentPanel (Fin 6) (initial_state demo_env))) = JNum (Fin 6) \<and>
   currentPanel (setState demo_env (JObj [(''currentPanel'', JNum NaN)])
                   (initial_state demo_env)) = JNum NaN"
  by (simp add: setState_currentPanel setCurrentPanel_def ENABLE_PANEL_6_def)

subsection \<open>Volumes and the selection\<close>

lemma volumes_selected_iff:
  "volumes_selected s \<longleftrightarrow>
     (\<forall>k \<in> set (keys (countryVolumes s)). JStr k \<in> set (selectedCountries s))"
  by (simp add: volumes_selected_def list_all_iff)

lemma set_Set_of: "set (Set_of xs) = set xs"
  by (induction xs rule: Set_of.induct) auto

lemma keys_delete_key: "set (keys (delete_key k kvs)) = set (keys kvs) - {k}"
  by (auto simp: keys_def delete_key_def)

lemma keys_fold_delete:
  "set (keys (fold (\<lambda>code. delete_key (f code)) ds kvs)) = set (keys kvs) - f ` set ds"
  by (induction ds arbitrary: kvs) (auto simp: keys_delete_key)

lemma keys_set_key: "set (keys (set_key k v kvs)) = insert k (set (keys kvs))"
  by (induction k v kvs rule: set_key.induct) (auto simp: keys_def)

lemma recalculate_selection:
  "selectedCountries (recalculate E s) = selectedCountries s"
  "countryVolumes (recalculate E s) = countryVolumes s"
  by (simp_all add: recalculate_def calculateAllRisks_def calculateBaselineRisk_def
        calculateManagedRisk_def Let_def)

lemma applySelection_fields:
  "selectedCountries (applySelection E updated s) = updated"
  "countryVolumes (applySelection E updated s) =
     fold (\<lambda>code. delete_key (toKey E code))
       (filter (\<lambda>code. code \<notin> set updated) (Set_of (selectedCountries s))) (countryVolumes s)"
  by (simp_all add: applySelection_def Let_def recalculate_selection)

lemma applySelection_keeps:
  assumes "volumes_selected s"
  shows "volumes_selected (applySelection E updated s)"
proof -
  { fix k
    assume k: "k \<in> set (keys (countryVolumes (applySelection E updated s)))"
    then have in_vols: "k \<in> set (keys (countryVolumes s))"
      and not_del: "k \<notin> toKey E ` set (filter (\<lambda>code. code \<notin> set updated)
                                          (Set_of (selectedCountries s)))"
      by (simp_all add: applySelection_fields keys_fold_delete)
    from assms in_vols have sel: "JStr k \<in> set (selectedCountries s)"
      by (simp add: volumes_selected_iff)
    have "JStr k \<in> set updated"
    proof (rule ccontr)
      assume "JStr k \<notin> set updated"
      with sel have "JStr k \<in> set (filter (\<lambda>code. code \<notin> set updated)
                                     (Set_of (selectedCountries s)))"
        by (simp add: set_Set_of)
      then have "toKey E (JStr k) \<in> toKey E ` set (filter (\<lambda>code. code \<notin> set updated)
                                     (Set_of (selectedCountries s)))"
        by (rule imageI)
      with not_del show False by simp
    qed }
  then show ?thesis
    by (simp add: volumes_selected_iff applySelection_fields(1))
qed

lemma onCountrySelect_keeps:
  assumes "volumes_selected s"
  shows "volumes_selected (onCountrySelect E nextSelected s)"
  using assms
  by (cases nextSelected) (simp_all add: onCountrySelect_def Let_def applySelection_keeps)

lemma onVolumeChange_keeps:
  assumes "volumes_selected s"
  shows "volumes_selected (onVolumeChange E (JStr code) volume s)"
  using assms
  by (auto simp: onVolumeChange_def Let_def volumes_selected_iff keys_set_key)


lemmas countryVolumes_frame =
  assignArray_frame [where g = countryVolumes] whenNumber_frame [where g = countryVolumes]
  whenBoolean_frame [where g = countryVolumes] whenObject_frame [where g = countryVolumes]
  whenDefined_frame [where g = countryVolumes]

lemmas selectedCountries_frame =
  assignArray_frame [where g = selectedCountries] whenNumber_frame [where g = selectedCountries]
  whenBoolean_frame [where g = selectedCountries] whenObject_frame [where g = selectedCountries]
  whenDefined_frame [where g = selectedCountries]

lemma countryVolumes_whenObject_set:
  "countryVolumes (whenObject v (\<lambda>obj s. s\<lparr> countryVolumes := F obj \<rparr>) s) =
     (if truthy v \<and> typeof_object v then F v else countryVolumes s)"
  by (simp add: whenObject_def)

lemma selectedCountries_assignArray_set:
  "selectedCountries (assignArray v (\<lambda>arr s. s\<lparr> selectedCountries := F arr \<rparr>) s) =
     (case v of JArr arr \<Rightarrow> F arr | _ \<Rightarrow> selectedCountries s)"
  by (cases v) (simp_all add: assignArray_def)

lemma setState_countryVolumes:
  "countryVolumes (setState E (JObj kvs) s) =
     (if truthy (get_prop (JObj kvs) ''countryVolumes'') \<and>
         typeof_object (get_prop (JObj kvs) ''countryVolumes'')
      then normalizeKeys (get_prop (JObj kvs) ''countryVolumes'') else countryVolumes s)"
  by (simp add: setState_def Let_def run_Cons run_Nil recalculate_selection
        countryVolumes_frame countryVolumes_whenObject_set del: get_prop.simps)

lemma setState_selectedCountries:
  "selectedCountries (setState E (JObj kvs) s) =
     (case get_prop (JObj kvs) ''selectedCountries'' of
        JArr arr \<Rightarrow> Set_of arr | _ \<Rightarrow> selectedCountries s)"
  by (cases "get_prop (JObj kvs) ''selectedCountries''")
     (simp_all add: setState_def Let_def run_Cons run_Nil recalculate_selection
        selectedCountries_frame selectedCountries_assignArray_set del: get_prop.simps)

text \<open>
  Claim C2 at a failing input. On a fresh controller nothing is selected and there are no
  volumes. \<^verbatim>\<open>setState({ countryVolumes: { XX: 5 } })\<close> stores the volume of XX while the
  selection stays empty, so the state that results has a volume for a country that is not
  selected. \<^verbatim>\<open>onCountrySelect\<close> and \<^verbatim>\<open>onVolumeChange\<close> do keep the invariant
  (\<open>onCountrySelect_keeps\<close>, \<open>onVolumeChange_keeps\<close>); \<^verbatim>\<open>setState\<close> stores the
  object it is given without looking at the selection.
\<close>

theorem setState_orphans_volume:
  "volumes_selected (initial_state demo_env) \<and>
   selectedCountries
     (setState demo_env (JObj [(''countryVolumes'', JObj [(''XX'', JNum (Fin 5))])])
        (initial_state demo_env)) = [] \<and>
   countryVolumes
     (setState demo_env (JObj [(''countryVolumes'', JObj [(''XX'', JNum (Fin 5))])])
        (initial_state demo_env)) = [(''XX'', JNum (Fin 5))] \<and>
   \<not> volumes_selected
       (setState demo_env (JObj [(''countryVolumes'', JObj [(''XX'', JNum (Fin 5))])])
          (initial_state demo_env))"
  by (simp add: volumes_selected_def setState_countryVolumes setState_selectedCountries
        normalizeKeys_def initial_state_def keys_def toUpperCase_def trim_def upperChar_def
        isWhiteSpace_def)

theorem setState_orphans_volume_witness:
  "keys (countryVolumes
           (setState demo_env (JObj [(''countryVolumes'', JObj [(''XX'', JNum (Fin 5))])])
              (initial_state demo_env))) = [''XX''] \<and>
   JStr ''XX'' \<notin> set (selectedCountries
           (setState demo_env (JObj [(''countryVolumes'', JObj [(''XX'', JNum (Fin 5))])])
              (initial_state demo_env)))"
  using setState_orphans_volume by (simp add: keys_def)

subsection \<open>The frame of optimizeBudgetAllocation\<close>

text \<open>
  Claim C7. If the engine leaves its arguments as they were, then
  \<^verbatim>\<open>optimizeBudgetAllocation\<close> returns the engine's result and changes the state in two
  fields only: \<^verbatim>\<open>lastOptimizationResult\<close>, which becomes the result, or \<^verbatim>\<open>null\<close> when
  the result is falsy, and \<^verbatim>\<open>shouldAutoRunOptimization\<close>, which becomes \<^verbatim>\<open>false\<close>.
  Every other field, the strategy, the effectiveness and responsiveness arrays, the focus,
  the selection, the volumes and the cost assumptions among them, is as before.
\<close>

theorem optimizeBudgetAllocation_frame:
  assumes "snd (engine_optimizeBudgetAllocation E (optimize_arguments s)) = optimize_arguments s"
  shows "fst (optimizeBudgetAllocation E s) =
       fst (engine_optimizeBudgetAllocation E (optimize_arguments s)) \<and>
     snd (optimizeBudgetAllocation E s) =
       s\<lparr> lastOptimizationResult :=
              (if truthy (fst (engine_optimizeBudgetAllocation E (optimize_arguments s)))
               then fst (engine_optimizeBudgetAllocation E (optimize_arguments s)) else JNull),
            shouldAutoRunOptimization := False \<rparr> \<and>
     hrddStrategy (snd (optimizeBudgetAllocation E s)) = hrddStrategy s \<and>
     transparencyEffectiveness (snd (optimizeBudgetAllocation E s)) = transparencyEffectiveness s \<and>
     responsivenessStrategy (snd (optimizeBudgetAllocation E s)) = responsivenessStrategy s \<and>
     responsivenessEffectiveness (snd (optimizeBudgetAllocation E s))
       = responsivenessEffectiveness s \<and>
     focus (snd (optimizeBudgetAllocation E s)) = focus s \<and>
     selectedCountries (snd (optimizeBudgetAllocation E s)) = selectedCountries s \<and>
     countryVolumes (snd (optimizeBudgetAllocation E s)) = countryVolumes s \<and>
     toolAnnualProgrammeCosts (snd (optimizeBudgetAllocation E s)) = toolAnnualProgrammeCosts s \<and>
     toolPerSupplierCosts (snd (optimizeBudgetAllocation E s)) = toolPerSupplierCosts s \<and>
     toolInternalHours (snd (optimizeBudgetAllocation E s)) = toolInternalHours s \<and>
     toolRemedyInternalHours (snd (optimizeBudgetAllocation E s)) = toolRemedyInternalHours s \<and>
     supplierCount (snd (optimizeBudgetAllocation E s)) = supplierCount s \<and>
     hourlyRate (snd (optimizeBudgetAllocation E s)) = hourlyRate s"
proof -
  obtain result after where r: "engine_optimizeBudgetAllocation E (optimize_arguments s) = (result, after)"
    by (cases "engine_optimizeBudgetAllocation E (optimize_arguments s)")
  with assms have after: "after = optimize_arguments s" by simp
  have st: "snd (optimizeBudgetAllocation E s) =
       s\<lparr> lastOptimizationResult := (if truthy result then result else JNull),
            shouldAutoRunOptimization := False \<rparr>"
  proof -
    have "snd (optimizeBudgetAllocation E s) =
       s\<lparr> toolAnnualProgrammeCosts := arg_toolAnnualProgrammeCosts after,
            toolPerSupplierCosts := arg_toolPerSupplierCosts after,
            toolInternalHours := arg_toolInternalHours after,
            toolRemedyInternalHours := arg_toolRemedyInternalHours after,
            hrddStrategy := arg_hrddStrategy after,
            transparencyEffectiveness := arg_transparencyEffectiveness after,
            responsivenessStrategy := arg_responsivenessStrategy after,
            responsivenessEffectiveness := arg_responsivenessEffectiveness after,
            selectedCountries := arg_selectedCountries after,
            countryVolumes := arg_countryVolumes after,
            countryRisks := arg_countryRisks after,
            lastOptimizationResult := or_else result JNull,
            shouldAutoRunOptimization := False \<rparr>"
      by (simp add: optimizeBudgetAllocation_def ENABLE_PANEL_6_def r)
    also have "\<dots> = s\<lparr> lastOptimizationResult := (if truthy result then result else JNull),
            shouldAutoRunOptimization := False \<rparr>"
      unfolding after by (simp add: optimize_arguments_def or_else_def)
    finally show ?thesis .
  qed
  have res: "fst (optimizeBudgetAllocation E s) = result"
    by (simp add: optimizeBudgetAllocation_def ENABLE_PANEL_6_def r)
  show ?thesis unfolding st res r by simp
qed

theorem optimizeBudgetAllocation_frame_witness:
  "snd (engine_optimizeBudgetAllocation demo_env (optimize_arguments (initial_state demo_env)))
     = optimize_arguments (initial_state demo_env) \<and>
   fst (optimizeBudgetAllocation demo_env (initial_state demo_env)) = JUndefined \<and>
   snd (optimizeBudgetAllocation demo_env (initial_state demo_env)) =
     (initial_state demo_env)\<lparr> lastOptimizationResult := JNull,
                                shouldAutoRunOptimization := False \<rparr>"
proof -
  have h: "snd (engine_optimizeBudgetAllocation demo_env (optimize_arguments (initial_state demo_env)))
     = optimize_arguments (initial_state demo_env)"
    by (simp add: demo_env_def)
  have f: "fst (engine_optimizeBudgetAllocation demo_env (optimize_arguments (initial_state demo_env)))
     = JUndefined"
    by (simp add: demo_env_def)
  from optimizeBudgetAllocation_frame[OF h] h show ?thesis
    unfolding f by simp
qed

subsection \<open>The rows of the budget breakdown\<close>















subsection \<open>The fallback stage attribution\<close>



lemma div_Fin_pos: "0 < d \<Longrightarrow> Fin x / Fin d = Fin (x / d)"
  by simp

lemma div_Fin_nz: "d \<noteq> 0 \<Longrightarrow> Fin x / Fin d = Fin (x / d)"
  by simp


lemma Fin_if: "(if c then Fin x else Fin y) = Fin (if c then x else y)"
  by simp






subsection \<open>What restoreState reads from the store\<close>

lemmas weights_frame =
  assignArray_frame [where g = weights] whenNumber_frame [where g = weights]
  whenBoolean_frame [where g = weights] whenObject_frame [where g = weights]
  whenDefined_frame [where g = weights]

lemmas hrddStrategy_frame =
  assignArray_frame [where g = hrddStrategy] whenNumber_frame [where g = hrddStrategy]
  whenBoolean_frame [where g = hrddStrategy] whenObject_frame [where g = hrddStrategy]
  whenDefined_frame [where g = hrddStrategy]

lemmas responsivenessStrategy_frame =
  assignArray_frame [where g = responsivenessStrategy] whenNumber_frame [where g = responsivenessStrategy]
  whenBoolean_frame [where g = responsivenessStrategy] whenObject_frame [where g = responsivenessStrategy]
  whenDefined_frame [where g = responsivenessStrategy]

lemmas transparencyEffectiveness_frame =
  assignArray_frame [where g = transparencyEffectiveness] whenNumber_frame [where g = transparencyEffectiveness]
  whenBoolean_frame [where g = transparencyEffectiveness] whenObject_frame [where g = transparencyEffectiveness]
  whenDefined_frame [where g = transparencyEffectiveness]

lemmas responsivenessEffectiveness_frame =
  assignArray_frame [where g = responsivenessEffectiveness] whenNumber_frame [where g = responsivenessEffectiveness]
  whenBoolean_frame [where g = responsivenessEffectiveness] whenObject_frame [where g = responsivenessEffectiveness]
  whenDefined_frame [where g = responsivenessEffectiveness]

lemmas focus_frame =
  assignArray_frame [where g = focus] whenNumber_frame [where g = focus]
  whenBoolean_frame [where g = focus] whenObject_frame [where g = focus]
  whenDefined_frame [where g = focus]

lemma weights_assignArray_set:
  "weights (assignArray v (\<lambda>arr s. s\<lparr> weights := F arr \<rparr>) s) =
     (case v of JArr arr \<Rightarrow> F arr | _ \<Rightarrow> weights s)"
  by (cases v) (simp_all add: assignArray_def)

lemma hrddStrategy_assignArray_set:
  "hrddStrategy (assignArray v (\<lambda>arr s. s\<lparr> hrddStrategy := F arr \<rparr>) s) =
     (case v of JArr arr \<Rightarrow> F arr | _ \<Rightarrow> hrddStrategy s)"
  by (cases v) (simp_all add: assignArray_def)

lemma responsivenessStrategy_assignArray_set:
  "responsivenessStrategy (assignArray v (\<lambda>arr s. s\<lparr> responsivenessStrategy := F arr \<rparr>) s) =
     (case v of JArr arr \<Rightarrow> F arr | _ \<Rightarrow> responsivenessStrategy s)"
  by (cases v) (simp_all add: assignArray_def)

lemma transparencyEffectiveness_assignArray_set:
  "transparencyEffectiveness (assignArray v (\<lambda>arr s. s\<lparr> transparencyEffectiveness := F arr \<rparr>) s) =
     (case v of JArr arr \<Rightarrow> F arr | _ \<Rightarrow> transparencyEffectiveness s)"
  by (cases v) (simp_all add: assignArray_def)

lemma responsivenessEffectiveness_assignArray_set:
  "responsivenessEffectiveness (assignArray v (\<lambda>arr s. s\<lparr> responsivenessEffectiveness := F arr \<rparr>) s) =
     (case v of JArr arr \<Rightarrow> F arr | _ \<Rightarrow> responsivenessEffectiveness s)"
  by (cases v) (simp_all add: assignArray_def)

lemma focus_whenNumber_set:
  "focus (whenNumber v (\<lambda>n s. s\<lparr> focus := F n \<rparr>) s) =
     (case v of JNum n \<Rightarrow> F n | _ \<Rightarrow> focus s)"
  by (cases v) (simp_all add: whenNumber_def)

lemma restoreState_weights:
  "weights (snd (restoreState E (s0, Some (JObj kvs)))) =
     (case get_prop (JObj kvs) ''weights'' of
        JArr arr \<Rightarrow> arr
      | _ \<Rightarrow> weights s0)"
  by (cases "get_prop (JObj kvs) ''weights''")
     (simp_all add: restoreState_def Let_def ENABLE_PANEL_6_def run_Cons run_Nil
        weights_frame weights_assignArray_set del: get_prop.simps)

lemma restoreState_hrddStrategy:
  "hrddStrategy (snd (restoreState E (s0, Some (JObj kvs)))) =
     (case get_prop (JObj kvs) ''hrddStrategy'' of
        JArr arr \<Rightarrow> arr
      | _ \<Rightarrow> hrddStrategy s0)"
  by (cases "get_prop (JObj kvs) ''hrddStrategy''")
     (simp_all add: restoreState_def Let_def ENABLE_PANEL_6_def run_Cons run_Nil
        hrddStrategy_frame hrddStrategy_assignArray_set del: get_prop.simps)

lemma restoreState_responsivenessStrategy:
  "responsivenessStrategy (snd (restoreState E (s0, Some (JObj kvs)))) =
     (case get_prop (JObj kvs) ''responsivenessStrategy'' of
        JArr arr \<Rightarrow> arr
      | _ \<Rightarrow> responsivenessStrategy s0)"
  by (cases "get_prop (JObj kvs) ''responsivenessStrategy''")
     (simp_all add: restoreState_def Let_def ENABLE_PANEL_6_def run_Cons run_Nil
        responsivenessStrategy_frame responsivenessStrategy_assignArray_set del: get_prop.simps)

lemma restoreState_selectedCountries:
  "selectedCountries (snd (restoreState E (s0, Some (JObj kvs)))) =
     (case get_prop (JObj kvs) ''selectedCountries'' of
        JArr arr \<Rightarrow> filter truthy (map (normalizeCode (JStr [])) arr)
      | _ \<Rightarrow> selectedCountries s0)"
  by (cases "get_prop (JObj kvs) ''selectedCountries''")
     (simp_all add: restoreState_def Let_def ENABLE_PANEL_6_def run_Cons run_Nil
        selectedCountries_frame selectedCountries_assignArray_set del: get_prop.simps)

lemma restoreState_transparencyEffectiveness:
  "transparencyEffectiveness (snd (restoreState E (s0, Some (JObj kvs)))) =
     (case get_prop (JObj kvs) ''transparencyEffectiveness'' of
        JArr arr \<Rightarrow> normalizeTransparencyEffectiveness (readFloat E) (JArr arr)
      | _ \<Rightarrow> transparencyEffectiveness s0)"
  by (cases "get_prop (JObj kvs) ''transparencyEffectiveness''")
     (simp_all add: restoreState_def Let_def ENABLE_PANEL_6_def run_Cons run_Nil
        transparencyEffectiveness_frame transparencyEffectiveness_assignArray_set del: get_prop.simps)

lemma restoreState_responsivenessEffectiveness:
  "responsivenessEffectiveness (snd (restoreState E (s0, Some (JObj kvs)))) =
     (case get_prop (JObj kvs) ''responsivenessEffectiveness'' of
        JArr arr \<Rightarrow> normalizeResponsivenessEffectiveness (readFloat E)
            (defaultResponsivenessEffectiveness E) (responsivenessLabels E) (JArr arr)
      | _ \<Rightarrow> responsivenessEffectiveness s0)"
  by (cases "get_prop (JObj kvs) ''responsivenessEffectiveness''")
     (simp_all add: restoreState_def Let_def ENABLE_PANEL_6_def run_Cons run_Nil
        responsivenessEffectiveness_frame responsivenessEffectiveness_assignArray_set del: get_prop.simps)

lemma restoreState_focus:
  "focus (snd (restoreState E (s0, Some (JObj kvs)))) =
     (case get_prop (JObj kvs) ''focus'' of
        JNum n \<Rightarrow> clamp01 (readFloat E) (JNum n)
      | _ \<Rightarrow> focus s0)"
  by (cases "get_prop (JObj kvs) ''focus''")
     (simp_all add: restoreState_def Let_def ENABLE_PANEL_6_def run_Cons run_Nil
        focus_frame focus_whenNumber_set del: get_prop.simps)

lemma restoreState_countryVolumes:
  "countryVolumes (snd (restoreState E (s0, Some (JObj kvs)))) =
     (if truthy (get_prop (JObj kvs) ''countryVolumes'') \<and>
         typeof_object (get_prop (JObj kvs) ''countryVolumes'')
      then normalizeKeys (get_prop (JObj kvs) ''countryVolumes'') else countryVolumes s0)"
  by (simp add: restoreState_def Let_def ENABLE_PANEL_6_def run_Cons run_Nil
        countryVolumes_frame countryVolumes_whenObject_set del: get_prop.simps)

subsection \<open>Saving and restoring\<close>

lemma json_snapshot_obj: "\<exists>kvs. json (snapshot s) = JObj kvs"
  by (simp add: snapshot_def)

lemma saved_props:
  "get_prop (json (snapshot s)) ''weights'' = JArr (map json (weights s))"
  "get_prop (json (snapshot s)) ''selectedCountries'' = JArr (map json (selectedCountries s))"
  "get_prop (json (snapshot s)) ''hrddStrategy'' = JArr (map json (hrddStrategy s))"
  "get_prop (json (snapshot s)) ''responsivenessStrategy'' =
     JArr (map json (responsivenessStrategy s))"
  "get_prop (json (snapshot s)) ''transparencyEffectiveness'' =
     JArr (map json (map JNum (transparencyEffectiveness s)))"
  "get_prop (json (snapshot s)) ''responsivenessEffectiveness'' =
     JArr (map json (map JNum (responsivenessEffectiveness s)))"
  "get_prop (json (snapshot s)) ''focus'' = json (JNum (focus s))"
  "get_prop (json (snapshot s)) ''countryVolumes'' = json (JObj (countryVolumes s))"
  by (simp_all add: snapshot_def ENABLE_PANEL_6_def del: json.simps(1,2))

lemma restoreState_restored:
  "Array_isArray (get_prop (JObj kvs) ''weights'') \<Longrightarrow>
     fst (restoreState E (s0, Some (JObj kvs)))"
  by (simp add: restoreState_def Let_def del: get_prop.simps)

text \<open>
  What \<^verbatim>\<open>restoreState\<close> makes of the session that \<^verbatim>\<open>saveState\<close> wrote, whatever the
  state \<open>s0\<close> of the controller that restores (the one that saved, or a fresh one after a
  reload). The weights and the two strategies come back as JSON kept them. The two
  effectiveness arrays are passed through their normalizers once more.
\<close>

lemma restore_saved_fields:
  fixes E :: env and s s0 :: app_state and st :: store
  assumes w: "storageWritable E"
  defines "s' \<equiv> snd (restoreState E (s0, snd (saveState E (s, st))))"
  shows "fst (restoreState E (s0, snd (saveState E (s, st))))"
    and "weights s' = map json (weights s)"
    and "hrddStrategy s' = map json (hrddStrategy s)"
    and "responsivenessStrategy s' = map json (responsivenessStrategy s)"
    and "transparencyEffectiveness s' =
           normalizeTransparencyEffectiveness (readFloat E)
             (JArr (map json (map JNum (transparencyEffectiveness s))))"
    and "responsivenessEffectiveness s' =
           normalizeResponsivenessEffectiveness (readFloat E)
             (defaultResponsivenessEffectiveness E) (responsivenessLabels E)
             (JArr (map json (map JNum (responsivenessEffectiveness s))))"
proof -
  obtain kvs where kvs: "json (snapshot s) = JObj kvs"
    using json_snapshot_obj by blast
  have saved: "snd (saveState E (s, st)) = Some (JObj kvs)"
    using w by (simp add: saveState_def kvs)
  note props = saved_props [of s, unfolded kvs]
  show "fst (restoreState E (s0, snd (saveState E (s, st))))"
    unfolding saved by (rule restoreState_restored) (simp add: props del: get_prop.simps)
  show "weights s' = map json (weights s)"
    unfolding s'_def saved by (simp add: restoreState_weights props del: get_prop.simps)
  show "hrddStrategy s' = map json (hrddStrategy s)"
    unfolding s'_def saved by (simp add: restoreState_hrddStrategy props del: get_prop.simps)
  show "responsivenessStrategy s' = map json (responsivenessStrategy s)"
    unfolding s'_def saved
    by (simp add: restoreState_responsivenessStrategy props del: get_prop.simps)
  show "transparencyEffectiveness s' =
          normalizeTransparencyEffectiveness (readFloat E)
            (JArr (map json (map JNum (transparencyEffectiveness s))))"
    unfolding s'_def saved
    by (simp add: restoreState_transparencyEffectiveness props del: get_prop.simps)
  show "responsivenessEffectiveness s' =
          normalizeResponsivenessEffectiveness (readFloat E)
            (defaultResponsivenessEffectiveness E) (responsivenessLabels E)
            (JArr (map json (map JNum (responsivenessEffectiveness s))))"
    unfolding s'_def saved
    by (simp add: restoreState_responsivenessEffectiveness props del: get_prop.simps)
qed

text \<open>
  Claim C4 fails in the code, on the case that the claim names. On any controller with a
  writable store, \<^verbatim>\<open>onTransparencyChange([0.005])\<close> stores the effectiveness 0.5, a value
  in (0, 1] that the normalizer produced. \<^verbatim>\<open>saveState\<close> writes it, and
  \<^verbatim>\<open>restoreState\<close>, on the same controller or on any other (\<open>s0\<close> is the state of the
  controller that restores), reports a restored session whose effectiveness is 50: the
  saved 0.5 went through \<^verbatim>\<open>normalizeTransparencyEffectiveness\<close> a second time and was
  read as a fraction. The restored value differs from the saved one.
\<close>

theorem restoreState_rescales_saved_fraction:
  assumes "storageWritable E"
  shows "transparencyEffectiveness
           (onTransparencyChange E (JArr [JNum (Fin (5 / 1000))]) s1) = [Fin (1 / 2)] \<and>
         fst (restoreState E (s0, snd (saveState E
           (onTransparencyChange E (JArr [JNum (Fin (5 / 1000))]) s1, st)))) \<and>
         transparencyEffectiveness (snd (restoreState E (s0, snd (saveState E
           (onTransparencyChange E (JArr [JNum (Fin (5 / 1000))]) s1, st))))) = [Fin 50] \<and>
         transparencyEffectiveness (snd (restoreState E (s0, snd (saveState E
           (onTransparencyChange E (JArr [JNum (Fin (5 / 1000))]) s1, st))))) \<noteq>
           transparencyEffectiveness
             (onTransparencyChange E (JArr [JNum (Fin (5 / 1000))]) s1)"
proof -
  let ?s = "onTransparencyChange E (JArr [JNum (Fin (5 / 1000))]) s1"
  have saved: "transparencyEffectiveness ?s = [Fin (1 / 2)]"
    by (simp add: onTransparencyChange_def normalizeTransparencyEffectiveness_def Let_def)
  have "transparencyEffectiveness (snd (restoreState E (s0, snd (saveState E (?s, st))))) =
      normalizeTransparencyEffectiveness (readFloat E)
        (JArr (map json (map JNum (transparencyEffectiveness ?s))))"
    by (rule restore_saved_fields(5) [OF assms])
  also have "\<dots> = [Fin 50]"
    unfolding saved by (simp add: normalizeTransparencyEffectiveness_def Let_def)
  finally have restored:
    "transparencyEffectiveness (snd (restoreState E (s0, snd (saveState E (?s, st))))) =
       [Fin 50]" .
  have flag: "fst (restoreState E (s0, snd (saveState E (?s, st))))"
    by (rule restore_saved_fields(1) [OF assms])
  have "transparencyEffectiveness (snd (restoreState E (s0, snd (saveState E (?s, st))))) \<noteq>
      transparencyEffectiveness ?s"
    unfolding restored saved by simp
  with saved restored flag show ?thesis by (intro conjI)
qed

theorem restoreState_rescales_saved_fraction_witness:
  "storageWritable demo_env \<and>
   transparencyEffectiveness
     (onTransparencyChange demo_env (JArr [JNum (Fin (5 / 1000))]) (initial_state demo_env)) =
     [Fin (1 / 2)] \<and>
   fst (restoreState demo_env (initial_state demo_env, snd (saveState demo_env
     (onTransparencyChange demo_env (JArr [JNum (Fin (5 / 1000))]) (initial_state demo_env),
      None)))) \<and>
   transparencyEffectiveness (snd (restoreState demo_env (initial_state demo_env,
     snd (saveState demo_env
       (onTransparencyChange demo_env (JArr [JNum (Fin (5 / 1000))]) (initial_state demo_env),
        None))))) = [Fin 50]"
proof -
  have w: "storageWritable demo_env" by (simp add: demo_env_def)
  from restoreState_rescales_saved_fraction [OF w, of "initial_state demo_env"
         "initial_state demo_env" None] w
  show ?thesis by (intro conjI) (elim conjE, assumption)+
qed

end
